theory Spec2Isabelle
  imports Complex_Main "HOL-Library.Word"
begin

section \<open>Numbers\<close>

text \<open>
  The sources compute with \<open>f32\<close> and with fixed-width signed integers.
  \<^item> \<open>f32\<close> is modelled by the real numbers: every \<open>f32\<close> expression of the sources is
    read as the same expression over \<open>real\<close>, so rounding, infinities and NaN are outside
    the model. A literal such as \<open>0.3f\<close> is the rational \<open>3/10\<close>.
  \<^item> \<open>s16\<close> is a 16-bit word read as two's complement (\<open>sint\<close>); \<open>+\<close> and \<open>-\<close> wrap
    around. The declarations of \<open>Savefile\<close> and \<open>StoreItem\<close> (save.hpp, config.hpp) are
    not among the sources; every integer field gets the width the sources cast to when
    they write it (\<open>static_cast<s16>\<close> in config.cpp, \<open>boost::lexical_cast<s16>\<close> and
    \<open>s16(...)\<close> in the states). Comparisons promote to \<open>int\<close> in C++, so they are
    comparisons of the \<open>sint\<close> values.
  \<^item> \<open>s32\<close> values (\<open>mItemHover\<close>, \<open>mPurchaseFloat\<close>, \<open>mScroll\<close>, the scroll steps)
    are \<open>int\<close>: they are small indices, steps and sentinels, and overflow of their sums
    is outside the model. The two conversions the sources apply to them are written
    out below.
\<close>

type_synonym f32 = real
type_synonym s16 = "16 word"
type_synonym s32 = int

text \<open>\<open>SDL_max(x, y)\<close> is the macro \<open>(((x) > (y)) ? (x) : (y))\<close>, here at type \<open>s16\<close>.\<close>

definition SDL_max :: "s16 \<Rightarrow> s16 \<Rightarrow> s16" where
  "SDL_max x y = (if sint x > sint y then x else y)"

text \<open>
  \<open>SDL_clamp(x, a, b)\<close> is the macro \<open>(((x) < (a)) ? (a) : (((x) > (b)) ? (b) : (x)))\<close>,
  here at type \<open>s32\<close>.
\<close>

definition SDL_clamp :: "s32 \<Rightarrow> s32 \<Rightarrow> s32 \<Rightarrow> s32" where
  "SDL_clamp x a b = (if x < a then a else if x > b then b else x)"

text \<open>
  The conversion \<open>s32(x)\<close> of an \<open>f32\<close> drops the fraction (towards zero), and the
  conversion \<open>usize(i)\<close> of an \<open>s32\<close> wraps a negative value around (64-bit \<open>usize\<close>).
\<close>

definition s32_of_f32 :: "f32 \<Rightarrow> s32" where
  "s32_of_f32 x = (if x < 0 then \<lceil>x\<rceil> else \<lfloor>x\<rfloor>)"

definition usize :: "s32 \<Rightarrow> nat" where
  "usize i = nat (i mod 2 ^ 64)"

section \<open>Savefile, configuration and the storage collaborator\<close>

text \<open>
  The persisted part of the save record (\<open>Savefile::v2\<close>) and the record itself, which
  adds the transient \<open>dirty\<close> flag. ShitState.cpp reads the same fields directly on the
  record (\<open>mSave.score\<close>); StoreSubState.cpp and EndState.cpp read them through \<open>v2\<close>.
\<close>

record SaveV2 =
  score :: s16
  prestige :: s16
  lubeTier :: s16
  gravityTier :: s16
  oxyTier :: s16

record Savefile =
  v2 :: SaveV2
  dirty :: bool

text \<open>
  Modelled from the spec: the value of a default-constructed \<open>v2\<close>. save.hpp is
  missing; the spec (section 6) has a record that is absent default to the zero-valued
  record.
\<close>

definition SaveV2_default :: SaveV2 where
  "SaveV2_default =
     \<lparr>score = 0, prestige = 0, lubeTier = 0, gravityTier = 0, oxyTier = 0\<rparr>"

text \<open>
  Modelled from the spec: the value of \<open>Savefile{}\<close> (save.hpp is missing), the
  zero-valued record with the transient flag cleared.
\<close>

definition Savefile_default :: Savefile where
  "Savefile_default = \<lparr>v2 = SaveV2_default, dirty = False\<rparr>"

text \<open>
  Modelled from the spec: what serialising the record does to the record itself.
  \<open>Savefile::save\<close> (save.cpp), which \<open>nqSave\<close> calls on the record it is given, is
  missing. The spec (sections 3 and 5) says the record is persisted when \<open>dirty\<close> is
  observed and that the flag is then cleared; no function under the sources writes
  \<open>false\<close> to the flag, so the clearing is placed here.
\<close>

definition Savefile_save :: "Savefile \<Rightarrow> Savefile" where
  "Savefile_save s = s\<lparr>dirty := False\<rparr>"

text \<open>
  Modelled from the spec: the storage collaborator \<open>nwge::data::Store\<close> ("persist/load a
  versioned record by key", section 1). The storage is the list of the save requests
  made so far, newest first; a load finds the newest record under its key and leaves the
  destination as it is when there is none (section 6: absence is tolerated). Requests
  complete at once: the queueing of \<open>nqSave\<close>/\<open>nqLoad\<close> is not modelled.
\<close>

type_synonym Store = "(string \<times> SaveV2) list"

text \<open>
  Modelled from the spec: \<open>Store::nqSave\<close> of the engine, which is not part of the
  sources. The request carries the persisted fields of the record, not the flag.
\<close>

definition nqSave :: "string \<Rightarrow> Savefile \<Rightarrow> Store \<Rightarrow> Store" where
  "nqSave name data st = (name, v2 data) # st"

text \<open>
  Modelled from the spec: \<open>Store::nqLoad\<close> of the engine, which is not part of the
  sources. The third argument is the destination as it stands before the load.
\<close>

definition nqLoad :: "string \<Rightarrow> Store \<Rightarrow> SaveV2 \<Rightarrow> SaveV2" where
  "nqLoad name st data = (case map_of st name of None \<Rightarrow> data | Some d \<Rightarrow> d)"

datatype Kind = NoKind | Lube | Gravity | Oxy | EndGame

record StoreItem =
  name :: string
  desc :: string
  price :: s16
  icon :: s16
  kind :: Kind
  argument :: s16
  item_prestige :: s16

text \<open>
  The members of \<open>Config\<close> that the simulation reads (config.hpp is missing; the nested
  structs \<open>lube\<close>, \<open>gravity\<close>, \<open>oxy\<close>, \<open>water\<close>, \<open>brick\<close> are flattened).
\<close>

record Config =
  lube_base :: f32
  lube_upgrade :: f32
  gravity_base :: f32
  gravity_upgrade :: f32
  gravity_threshold :: f32
  oxy_regen :: f32
  oxy_drain :: f32
  oxy_min :: f32
  water_minX :: f32
  water_maxX :: f32
  water_minY :: f32
  water_maxY :: f32
  brick_fallSpeed :: f32
  store :: "StoreItem list"

datatype Sound = Splash | Buy | Broke | Pop | Breath | Michael

text \<open>
  The engine's events that the states look at: a mouse button going down at a position,
  the mouse moving to a position, the wheel scrolling by a number of steps; every other
  event is \<open>OtherEvent\<close>.
\<close>

datatype Event =
  MouseDown "f32 \<times> f32" | MouseMotion "f32 \<times> f32" | MouseScroll s32 | OtherEvent

section \<open>StoreSubState: ownership and purchase\<close>

text \<open>
  \<open>mData.save\<close> is the parent state's save record, shared by reference; \<open>source\<close> is
  what \<open>mData.source\<close> was last told to play; \<open>swappedToEnd\<close> records
  \<open>swapStatePtr(getEndState())\<close> and \<open>popped\<close> records \<open>popSubState()\<close>. The
  configuration (\<open>mData.config\<close>) is an argument of the functions that read it.
\<close>

record StoreSubState =
  data_save :: Savefile
  mItemHover :: s32
  mPurchaseFloat :: s32
  mPurchaseFloatTimer :: f32
  source :: "Sound option"
  swappedToEnd :: bool
  mPurchaseFloatAnchor :: "f32 \<times> f32"
  mScroll :: s32
  popped :: bool

definition cNoPurchaseFloat :: s32 where "cNoPurchaseFloat = -1"
definition cInsufficientFundsFloat :: s32 where "cInsufficientFundsFloat = -2"
definition cAlreadyOwnedFloat :: s32 where "cAlreadyOwnedFloat = -3"

definition hasItem :: "Savefile \<Rightarrow> StoreItem \<Rightarrow> bool" where
  "hasItem sv item =
     (if sint (prestige (v2 sv)) < sint (item_prestige item) then False
      else case kind item of
          Lube \<Rightarrow> sint (lubeTier (v2 sv)) \<ge> sint (argument item)
        | Gravity \<Rightarrow> sint (gravityTier (v2 sv)) \<ge> sint (argument item)
        | Oxy \<Rightarrow> sint (oxyTier (v2 sv)) \<ge> sint (argument item)
        | _ \<Rightarrow> False)"

text \<open>
  \<open>acquire\<close> returns nothing in the source; the model returns, beside the new state, the
  name of the return path that was taken. \<open>NWGE_UNREACHABLE\<close> is the error value.
\<close>

datatype Outcome = AlreadyOwned | InsufficientFunds | Purchased

datatype error = InvalidStoreItem

text \<open>
  Three runs of statements that \<open>acquire\<close> repeats: showing a rejection float with the
  "broke" sound (lines 111-115 and 121-125), the tail of a tier purchase (lines 147-151)
  and the payment (lines 129-130).
\<close>

definition playFloat :: "s32 \<Rightarrow> StoreSubState \<Rightarrow> StoreSubState" where
  "playFloat fl st =
     st\<lparr>mPurchaseFloat := fl, mPurchaseFloatTimer := 0, source := Some Broke\<rparr>"

definition purchased :: "StoreSubState \<Rightarrow> StoreSubState" where
  "purchased st =
     st\<lparr>mPurchaseFloat := mItemHover st, mItemHover := -1, source := Some Buy\<rparr>"

definition pay :: "StoreItem \<Rightarrow> Savefile \<Rightarrow> Savefile" where
  "pay item sv = sv\<lparr>v2 := (v2 sv)\<lparr>score := score (v2 sv) - price item\<rparr>, dirty := True\<rparr>"

definition acquire :: "StoreItem \<Rightarrow> StoreSubState \<Rightarrow> error + (Outcome \<times> StoreSubState)" where
  "acquire item st =
     (if hasItem (data_save st) item then
        Inr (AlreadyOwned, playFloat cAlreadyOwnedFloat st)
      else if sint (score (v2 (data_save st))) < sint (price item) then
        Inr (InsufficientFunds, playFloat cInsufficientFundsFloat st)
      else
        let sv = pay item (data_save st) in
        case kind item of
          Lube \<Rightarrow>
            Inr (Purchased, purchased (st\<lparr>data_save :=
              sv\<lparr>v2 := (v2 sv)\<lparr>lubeTier := SDL_max (lubeTier (v2 sv)) (argument item)\<rparr>\<rparr>\<rparr>))
        | Gravity \<Rightarrow>
            Inr (Purchased, purchased (st\<lparr>data_save :=
              sv\<lparr>v2 := (v2 sv)\<lparr>gravityTier := SDL_max (gravityTier (v2 sv)) (argument item)\<rparr>\<rparr>\<rparr>))
        | Oxy \<Rightarrow>
            Inr (Purchased, purchased (st\<lparr>data_save :=
              sv\<lparr>v2 := (v2 sv)\<lparr>oxyTier := SDL_max (oxyTier (v2 sv)) (argument item)\<rparr>\<rparr>\<rparr>))
        | EndGame \<Rightarrow> Inr (Purchased, st\<lparr>data_save := sv, swappedToEnd := True\<rparr>)
        | NoKind \<Rightarrow> Inl InvalidStoreItem)"

text \<open>
  The layout constants of the store window. \<open>cPad\<close> is declared in ui.hpp, which is not
  among the sources: the constants that are computed from it, and the functions that
  read those, take it as an argument. A \<open>cPad\<close> that makes \<open>cItemH\<close> zero, and a quotient
  beyond the range of \<open>s32\<close>, are outside the model of \<open>updateItemHover\<close>; the lemmas on
  \<open>StoreSubState_on\<close> below hold whatever index it computes.
\<close>

definition cWindowW :: f32 where "cWindowW = 7 / 10"
definition cWindowH :: f32 where "cWindowH = 9 / 10"
definition cWindowX :: f32 where "cWindowX = (1 - cWindowW) / 2"
definition cWindowY :: f32 where "cWindowY = (1 - cWindowH) / 2"
definition cTitleTextH :: f32 where "cTitleTextH = 8 / 100"
definition cScrollScalar :: f32 where "cScrollScalar = 5 / 100"
definition cMinScroll :: s32 where "cMinScroll = 0"
definition cMaxScroll :: s32 where "cMaxScroll = 7"

definition cTitleTextY :: "f32 \<Rightarrow> f32" where
  "cTitleTextY cPad = cWindowY + cPad"

definition cItemAreaX :: "f32 \<Rightarrow> f32" where
  "cItemAreaX cPad = cWindowX + cPad"

definition cItemAreaY :: "f32 \<Rightarrow> f32" where
  "cItemAreaY cPad = cTitleTextY cPad + cTitleTextH + cPad"

definition cItemAreaW :: "f32 \<Rightarrow> f32" where
  "cItemAreaW cPad = cWindowW - 2 * cPad"

definition cItemAreaH :: "f32 \<Rightarrow> f32" where
  "cItemAreaH cPad = cWindowH - 2 * cPad - cTitleTextH - cPad"

definition cItemH :: "f32 \<Rightarrow> f32" where
  "cItemH cPad = cItemAreaH cPad / (55 / 10)"

definition updateItemHover :: "f32 \<Rightarrow> f32 \<times> f32 \<Rightarrow> StoreSubState \<Rightarrow> StoreSubState" where
  "updateItemHover cPad mousePos st =
     (if fst mousePos < cItemAreaX cPad \<or> fst mousePos \<ge> cItemAreaX cPad + cItemAreaW cPad
         \<or> snd mousePos < cItemAreaY cPad \<or> snd mousePos \<ge> cItemAreaY cPad + cItemAreaH cPad
      then st\<lparr>mItemHover := -1\<rparr>
      else st\<lparr>mItemHover :=
             s32_of_f32 ((snd mousePos + real_of_int (mScroll st) * cScrollScalar
                            - cItemAreaY cPad) / cItemH cPad)\<rparr>)"

text \<open>
  The loop of \<open>getHoveredItem\<close> over the items of the configuration that are left, with
  the display index reached so far; then the function, which returns the item it points
  to or nothing for \<open>nullptr\<close>.
\<close>

fun getHoveredItem_loop :: "StoreItem list \<Rightarrow> Savefile \<Rightarrow> s32 \<Rightarrow> s32 \<Rightarrow> StoreItem option" where
  "getHoveredItem_loop [] sv hover displayIdx = None"
| "getHoveredItem_loop (item # items) sv hover displayIdx =
     (if sint (item_prestige item) > sint (prestige (v2 sv))
        then getHoveredItem_loop items sv hover displayIdx
      else if displayIdx = hover then Some item
      else getHoveredItem_loop items sv hover (displayIdx + 1))"

definition getHoveredItem :: "Config \<Rightarrow> StoreSubState \<Rightarrow> StoreItem option" where
  "getHoveredItem cfg st =
     (if mItemHover st < 0 then None
      else getHoveredItem_loop (store cfg) (data_save st) (mItemHover st) 0)"

text \<open>
  \<open>StoreSubState::on\<close>, the only caller of \<open>acquire\<close>: the item it passes is the one
  \<open>getHoveredItem\<close> returns.
\<close>

definition StoreSubState_on ::
  "f32 \<Rightarrow> Config \<Rightarrow> Event \<Rightarrow> StoreSubState \<Rightarrow> error + StoreSubState" where
  "StoreSubState_on cPad cfg evt st =
     (case evt of
        MouseDown pos \<Rightarrow>
          if (fst pos < cWindowX \<or> fst pos > cWindowX + cWindowW)
             \<or> (snd pos < cWindowY \<or> snd pos > cWindowY + cWindowH)
          then Inr (st\<lparr>popped := True\<rparr>)
          else
            let st1 = updateItemHover cPad pos st in
            if mItemHover st1 = -1 \<or> usize (mItemHover st1) \<ge> length (store cfg)
            then Inr st1
            else (case getHoveredItem cfg st1 of
                None \<Rightarrow> Inr st1
              | Some item \<Rightarrow>
                  map_sum id snd
                    (acquire item (st1\<lparr>mPurchaseFloatAnchor := pos, mPurchaseFloatTimer := 0\<rparr>)))
      | MouseMotion pos \<Rightarrow> Inr (updateItemHover cPad pos st)
      | MouseScroll steps \<Rightarrow>
          Inr (st\<lparr>mScroll := SDL_clamp (mScroll st + steps) cMinScroll cMaxScroll\<rparr>)
      | OtherEvent \<Rightarrow> Inr st)"

section \<open>ShitState: the simulation\<close>

text \<open>
  The members the simulation reads or writes. \<open>sSplash\<close> is the function-static flag of
  \<open>tick\<close>, carried in the record while a state runs; \<open>played\<close> lists the sounds played so far, newest first; \<open>mStore\<close> is the
  storage reached through the member of that name; \<open>storePushed\<close> records
  \<open>pushSubStatePtr(getStoreSubState(data), ...)\<close>. Textures, fonts and the score string
  are left to rendering.
\<close>

record ShitState =
  mEffort :: f32
  mOxy :: f32
  mOuttaBreath :: bool
  mProgress :: f32
  mCooldown :: f32
  mGravity :: f32
  mProgressDecay :: f32
  mBrickFall :: f32
  mTimer :: f32
  mWaterX :: f32
  mWaterY :: f32
  mHoveringStoreIcon :: bool
  mSave :: Savefile
  mStore :: Store
  sSplash :: bool
  played :: "Sound list"
  storePushed :: bool

definition cEffortDecay :: f32 where "cEffortDecay = 3 / 10"
definition cEffortIncrement :: f32 where "cEffortIncrement = 1 / 10"
definition cMaxEffort :: f32 where "cMaxEffort = 1"
definition cProgressScalar :: f32 where "cProgressScalar = 1 / 2"
definition cCooldownValue :: f32 where "cCooldownValue = 3"
definition cFadeInTime :: f32 where "cFadeInTime = 1"
definition cStoreIconW :: f32 where "cStoreIconW = 5 / 100"
definition cStoreIconH :: f32 where "cStoreIconH = 5 / 100"
definition cStoreIconX :: f32 where "cStoreIconX = 1 / 2 + 2 / 10"
definition cStoreIconY :: f32 where "cStoreIconY = 75 / 1000"

text \<open>
  The member initialisers of the class, over the storage \<open>disk\<close>. \<open>sSplash\<close> is not a
  member: it is the function-static of \<open>tick\<close>, set to \<open>true\<close> once when the process
  first runs \<open>tick\<close> and shared by every state the process creates afterwards. A new
  state finds it as the process left it; that value is the argument \<open>splash\<close>, \<open>True\<close>
  for the first state of a process.
\<close>

definition ShitState_new :: "Store \<Rightarrow> bool \<Rightarrow> ShitState" where
  "ShitState_new disk splash =
     \<lparr>mEffort = 0, mOxy = 1, mOuttaBreath = False, mProgress = 0, mCooldown = 0,
      mGravity = 0, mProgressDecay = 9 / 10, mBrickFall = -1, mTimer = 0,
      mWaterX = 0, mWaterY = 0, mHoveringStoreIcon = False,
      mSave = Savefile_default, mStore = disk, sSplash = splash, played = [],
      storePushed = False\<rparr>"

definition recalculateProgressDecay :: "Config \<Rightarrow> ShitState \<Rightarrow> ShitState" where
  "recalculateProgressDecay cfg s =
     s\<lparr>mProgressDecay :=
         lube_base cfg - real_of_int (sint (lubeTier (v2 (mSave s)))) * lube_upgrade cfg\<rparr>"

definition recalculateGravity :: "Config \<Rightarrow> ShitState \<Rightarrow> ShitState" where
  "recalculateGravity cfg s =
     s\<lparr>mGravity :=
         gravity_base cfg + real_of_int (sint (gravityTier (v2 (mSave s)))) * gravity_upgrade cfg\<rparr>"

definition save :: "ShitState \<Rightarrow> ShitState" where
  "save s = s\<lparr>mStore := nqSave ''progress'' (mSave s) (mStore s),
              mSave := Savefile_save (mSave s)\<rparr>"

definition resetSave :: "ShitState \<Rightarrow> ShitState" where
  "resetSave s = save (s\<lparr>mSave := Savefile_default\<rparr>)"

definition updateHoveringStoreIcon :: "f32 \<times> f32 \<Rightarrow> ShitState \<Rightarrow> ShitState" where
  "updateHoveringStoreIcon mousePos s =
     s\<lparr>mHoveringStoreIcon :=
         ((fst mousePos > cStoreIconX \<and> fst mousePos < cStoreIconX + cStoreIconW) \<and>
          (snd mousePos > cStoreIconY \<and> snd mousePos < cStoreIconY + cStoreIconH))\<rparr>"

definition preload :: "ShitState \<Rightarrow> ShitState" where
  "preload s = s\<lparr>mSave := (mSave s)\<lparr>v2 := nqLoad ''progress'' (mStore s) (v2 (mSave s))\<rparr>\<rparr>"

definition init :: "Config \<Rightarrow> ShitState \<Rightarrow> ShitState" where
  "init cfg s = recalculateGravity cfg (recalculateProgressDecay cfg s)"

definition on :: "Config \<Rightarrow> Event \<Rightarrow> ShitState \<Rightarrow> ShitState" where
  "on cfg evt s =
     (if mTimer s < cFadeInTime then s
      else case evt of
          MouseDown pos \<Rightarrow>
            (let s1 = updateHoveringStoreIcon pos s in
             if mHoveringStoreIcon s1 then s1\<lparr>storePushed := True\<rparr>
             else if \<not> mOuttaBreath s1 \<and> mCooldown s1 \<le> 0 \<and> mEffort s1 < cMaxEffort
                     \<and> mOxy s1 \<ge> oxy_min cfg
               then s1\<lparr>mEffort := mEffort s1 + cEffortIncrement\<rparr>
             else s1)
        | MouseMotion pos \<Rightarrow> updateHoveringStoreIcon pos s
        | MouseScroll steps \<Rightarrow> s
        | OtherEvent \<Rightarrow> s)"

text \<open>
  \<open>tick\<close> is one function in the source; its body is cut here into the four blocks it
  runs in order once the fade-in is over: effort decay (lines 406-414), oxygen (416-429),
  progress, completion and cooldown (431-457), the falling brick (459-465).
\<close>

definition tickEffort :: "f32 \<Rightarrow> ShitState \<Rightarrow> ShitState" where
  "tickEffort delta s =
     (if mEffort s > 0 then
        let e1 = mEffort s - cEffortDecay * delta;
            e2 = (if mOuttaBreath s \<or> mCooldown s > 0 then e1 - delta else e1)
        in s\<lparr>mEffort := (if e2 < 0 then 0 else e2)\<rparr>
      else s)"

definition tickOxy :: "Config \<Rightarrow> f32 \<Rightarrow> ShitState \<Rightarrow> ShitState" where
  "tickOxy cfg delta s =
     (let s1 = (if mOxy s < 1 then s\<lparr>mOxy := mOxy s + oxy_regen cfg * delta\<rparr>
                else s\<lparr>mOuttaBreath := False\<rparr>);
          s2 = s1\<lparr>mOxy := mOxy s1 - mEffort s1 * oxy_drain cfg * delta\<rparr>
      in if mOxy s2 \<le> 0 then
           s2\<lparr>played := (if \<not> mOuttaBreath s2 then Breath # played s2 else played s2),
              mOuttaBreath := True, mOxy := 0\<rparr>
         else s2)"

text \<open>The progress after lines 432-435, before the test of line 436.\<close>

definition advanced :: "Config \<Rightarrow> f32 \<Rightarrow> ShitState \<Rightarrow> f32" where
  "advanced cfg delta s =
     (let p1 = mProgress s + mEffort s * cProgressScalar * delta
      in if p1 \<ge> gravity_threshold cfg then p1 + mGravity s * delta else p1)"

definition tickProgress :: "Config \<Rightarrow> f32 \<Rightarrow> ShitState \<Rightarrow> ShitState" where
  "tickProgress cfg delta s =
     (if mProgress s < 1 then
        let p = advanced cfg delta s in
        if p \<ge> 1 then
          save (s\<lparr>mProgress := p, mCooldown := cCooldownValue, mBrickFall := 0,
                  played := Pop # played s,
                  mSave := (mSave s)\<lparr>v2 := (v2 (mSave s))\<lparr>score := score (v2 (mSave s)) + 1\<rparr>\<rparr>\<rparr>)
        else if p > 0 then
          let p3 = p - mProgressDecay s * delta
          in s\<lparr>mProgress := (if p3 < 0 then 0 else p3)\<rparr>
        else s\<lparr>mProgress := p\<rparr>
      else if mCooldown s > 0 then s\<lparr>mCooldown := mCooldown s - delta\<rparr>
      else (recalculateGravity cfg (recalculateProgressDecay cfg
              (s\<lparr>mProgress := 0, mCooldown := 0, mBrickFall := -1\<rparr>)))\<lparr>sSplash := True\<rparr>)"

definition tickBrickFall :: "Config \<Rightarrow> f32 \<Rightarrow> ShitState \<Rightarrow> ShitState" where
  "tickBrickFall cfg delta s =
     (if mBrickFall s \<ge> 0 then
        let s1 = s\<lparr>mBrickFall := mBrickFall s + brick_fallSpeed cfg * delta\<rparr>
        in s1\<lparr>played := (if mBrickFall s1 \<ge> mWaterY s1 \<and> sSplash s1
                            then Splash # played s1 else played s1),
              sSplash := (if mBrickFall s1 \<ge> mWaterY s1 \<and> sSplash s1
                            then False else sSplash s1)\<rparr>
      else s)"

text \<open>Lines 392-400: the dirty check, the timer and the water position.\<close>

definition tickStart :: "Config \<Rightarrow> f32 \<Rightarrow> ShitState \<Rightarrow> ShitState" where
  "tickStart cfg delta s =
     (let s0 = (if dirty (mSave s) then save s else s);
          t = mTimer s0 + delta
      in s0\<lparr>mTimer := t,
            mWaterX := water_minX cfg
                       - (1 / 2 * sin (1 + 12 / 10 * t) + 1) * (water_maxX cfg - water_minX cfg),
            mWaterY := water_minY cfg
                       + (1 / 2 * sin t + 1) * (water_maxY cfg - water_minY cfg)\<rparr>)"

definition tick :: "Config \<Rightarrow> f32 \<Rightarrow> ShitState \<Rightarrow> ShitState" where
  "tick cfg delta s =
     (let s1 = tickStart cfg delta s
      in if mTimer s1 < cFadeInTime then s1
         else tickBrickFall cfg delta
                (tickProgress cfg delta (tickOxy cfg delta (tickEffort delta s1))))"

text \<open>
  A session of the state: ticks and events in the order the engine delivers them.
\<close>

datatype Input = Tick f32 | On Event

fun step :: "Config \<Rightarrow> ShitState \<Rightarrow> Input \<Rightarrow> ShitState" where
  "step cfg s (Tick delta) = tick cfg delta s"
| "step cfg s (On evt) = on cfg evt s"

definition run :: "Config \<Rightarrow> Input list \<Rightarrow> ShitState \<Rightarrow> ShitState" where
  "run cfg inputs s = foldl (step cfg) s inputs"

fun is_nonneg_tick :: "Input \<Rightarrow> bool" where
  "is_nonneg_tick (Tick delta) = (delta \<ge> 0)"
| "is_nonneg_tick (On evt) = True"

section \<open>EndState: the end of a run\<close>

record EndState =
  end_mCountdown :: f32
  end_mSave :: Savefile
  end_mStore :: Store
  end_mSource :: "Sound list"

definition EndState_new :: "Store \<Rightarrow> EndState" where
  "EndState_new disk =
     \<lparr>end_mCountdown = 11 / 10, end_mSave = Savefile_default, end_mStore = disk,
      end_mSource = []\<rparr>"

definition EndState_preload :: "EndState \<Rightarrow> EndState" where
  "EndState_preload e =
     e\<lparr>end_mSave := (end_mSave e)\<lparr>v2 := nqLoad ''save.json'' (end_mStore e) (v2 (end_mSave e))\<rparr>\<rparr>"

definition EndState_init :: "EndState \<Rightarrow> EndState" where
  "EndState_init e =
     (let prestige' = prestige (v2 (end_mSave e)) + 1;
          sv = Savefile_default\<lparr>v2 := (v2 Savefile_default)\<lparr>prestige := prestige'\<rparr>\<rparr>
      in e\<lparr>end_mSave := sv,
           end_mStore := nqSave ''save.json'' sv (end_mStore e),
           end_mSource := end_mSource e @ [Michael]\<rparr>)"

text \<open>
  The terminal transition: the engine constructs the state over the storage, then runs
  \<open>preload\<close> and \<open>init\<close>.
\<close>

definition enterEndState :: "Store \<Rightarrow> EndState" where
  "enterEndState disk = EndState_init (EndState_preload (EndState_new disk))"

section \<open>Sequences of operations and sample inputs\<close>

text \<open>
  Purchase attempts made one after another on the same sub-state; an unreachable branch
  ends the sequence, as the abort would.
\<close>

fun acquireAll :: "StoreItem list \<Rightarrow> StoreSubState \<Rightarrow> error + StoreSubState" where
  "acquireAll [] st = Inr st"
| "acquireAll (item # items) st =
     (case acquire item st of Inl e \<Rightarrow> Inl e | Inr (out, st') \<Rightarrow> acquireAll items st')"

text \<open>Sample inputs for the closed instances below.\<close>

definition exSave :: "s16 \<Rightarrow> s16 \<Rightarrow> s16 \<Rightarrow> Savefile" where
  "exSave sc pr lu =
     \<lparr>v2 = \<lparr>score = sc, prestige = pr, lubeTier = lu, gravityTier = 0, oxyTier = 0\<rparr>,
      dirty = False\<rparr>"

definition exStore :: "Savefile \<Rightarrow> StoreSubState" where
  "exStore sv =
     \<lparr>data_save = sv, mItemHover = 0, mPurchaseFloat = -1, mPurchaseFloatTimer = 0,
      source = None, swappedToEnd = False, mPurchaseFloatAnchor = (0, 0), mScroll = 0,
      popped = False\<rparr>"

definition exItem :: "Kind \<Rightarrow> s16 \<Rightarrow> s16 \<Rightarrow> s16 \<Rightarrow> StoreItem" where
  "exItem k a p pr =
     \<lparr>name = ''item'', desc = ''an item'', price = p, icon = 0, kind = k, argument = a,
      item_prestige = pr\<rparr>"

definition cfg0 :: Config where
  "cfg0 = \<lparr>lube_base = 2 / 10, lube_upgrade = 1 / 100,
            gravity_base = 6 / 10, gravity_upgrade = 1 / 10, gravity_threshold = 1 / 2,
            oxy_regen = 1 / 10, oxy_drain = 2 / 10, oxy_min = 1 / 10,
            water_minX = 0, water_maxX = 0, water_minY = 0, water_maxY = 0,
            brick_fallSpeed = 1, store = []\<rparr>"

text \<open>
  A store of three items: the first asks for prestige 1, the other two for none.
\<close>

definition exCfg :: Config where
  "exCfg = cfg0\<lparr>store := [exItem Lube 2 30 1, exItem Lube 4 30 0, exItem EndGame 0 50 0]\<rparr>"

definition click :: Input where
  "click = On (MouseDown (0, 0))"

definition start0 :: ShitState where
  "start0 = init cfg0 (preload (ShitState_new [] True))"

text \<open>The first state of a process over a storage whose record has lube tier 100.\<close>

definition start100 :: ShitState where
  "start100 =
     init cfg0 (preload (ShitState_new
       [(''progress'', SaveV2_default\<lparr>lubeTier := 100\<rparr>)] True))"

text \<open>The state after a payment in the store: the shared record is dirty.\<close>

definition exDirty :: ShitState where
  "exDirty = start0\<lparr>mSave := pay (exItem Lube 1 0 0) (mSave start0)\<rparr>"

section \<open>Predicates on the simulation\<close>

text \<open>
  The tick takes the completion branch of line 436: the fade-in is over, the progress
  entering the progress block is below 1 and the advance of lines 432-435 takes it to 1
  or beyond. This is the branch that scores and queues a save; the decay of line 443 is
  not part of it.
\<close>

definition completes :: "Config \<Rightarrow> f32 \<Rightarrow> ShitState \<Rightarrow> bool" where
  "completes cfg delta s =
     (let s1 = tickStart cfg delta s;
          s3 = tickOxy cfg delta (tickEffort delta s1)
      in \<not> mTimer s1 < cFadeInTime \<and> mProgress s3 < 1 \<and> advanced cfg delta s3 \<ge> 1)"

text \<open>Ticks in a row, and the runs of ticks none of which completes a fill.\<close>

fun ticks :: "Config \<Rightarrow> f32 list \<Rightarrow> ShitState \<Rightarrow> ShitState" where
  "ticks cfg [] s = s"
| "ticks cfg (delta # deltas) s = ticks cfg deltas (tick cfg delta s)"

fun noCompletion :: "Config \<Rightarrow> f32 list \<Rightarrow> ShitState \<Rightarrow> bool" where
  "noCompletion cfg [] s = True"
| "noCompletion cfg (delta # deltas) s =
     (\<not> completes cfg delta s \<and> noCompletion cfg deltas (tick cfg delta s))"

text \<open>The invariants of the simulation that the proofs below carry through a session.\<close>

definition effort_oxy_inv :: "ShitState \<Rightarrow> bool" where
  "effort_oxy_inv s =
     (0 \<le> mEffort s \<and> mEffort s < cMaxEffort + cEffortIncrement \<and> 0 \<le> mOxy s)"

definition gravity_nonneg :: "Config \<Rightarrow> ShitState \<Rightarrow> bool" where
  "gravity_nonneg cfg s =
     (0 \<le> mGravity s \<and>
      0 \<le> gravity_base cfg
            + real_of_int (sint (gravityTier (v2 (mSave s)))) * gravity_upgrade cfg)"

definition progress_inv :: "Config \<Rightarrow> ShitState \<Rightarrow> bool" where
  "progress_inv cfg s = (effort_oxy_inv s \<and> gravity_nonneg cfg s \<and> 0 \<le> mProgress s)"

section \<open>The store: ownership, price and tiers\<close>

lemma SDL_max_sint: "sint (SDL_max x y) = max (sint x) (sint y)"
  by (simp add: SDL_max_def max_def)

lemma acquire_rejected:
  assumes "sint (score (v2 (data_save st))) < sint (price item)"
  shows "\<exists>out st'. acquire item st = Inr (out, st') \<and> out \<noteq> Purchased
           \<and> data_save st' = data_save st"
  using assms by (simp add: acquire_def playFloat_def)

lemma acquireAll_rejected:
  "\<forall>item \<in> set items. sint (score (v2 (data_save st))) < sint (price item) \<Longrightarrow>
   \<exists>st'. acquireAll items st = Inr st' \<and> data_save st' = data_save st"
proof (induction items arbitrary: st)
  case Nil
  then show ?case by simp
next
  case (Cons item items)
  from Cons.prems have "sint (score (v2 (data_save st))) < sint (price item)" by simp
  from acquire_rejected [OF this] obtain out st1
    where a: "acquire item st = Inr (out, st1)" and e: "data_save st1 = data_save st"
    by blast
  from Cons.prems e
  have "\<forall>i \<in> set items. sint (score (v2 (data_save st1))) < sint (price i)" by simp
  from Cons.IH [OF this] obtain st'
    where "acquireAll items st1 = Inr st'" "data_save st' = data_save st1"
    by blast
  with a e show ?case by simp
qed

lemma acquire_tiers:
  assumes "acquire item st = Inr (Purchased, st')"
  shows "sint (lubeTier (v2 (data_save st'))) =
           (if kind item = Lube
            then max (sint (lubeTier (v2 (data_save st)))) (sint (argument item))
            else sint (lubeTier (v2 (data_save st))))"
    and "sint (gravityTier (v2 (data_save st'))) =
           (if kind item = Gravity
            then max (sint (gravityTier (v2 (data_save st)))) (sint (argument item))
            else sint (gravityTier (v2 (data_save st))))"
    and "sint (oxyTier (v2 (data_save st'))) =
           (if kind item = Oxy
            then max (sint (oxyTier (v2 (data_save st)))) (sint (argument item))
            else sint (oxyTier (v2 (data_save st))))"
  using assms
  by (cases "kind item";
      auto simp: acquire_def Let_def pay_def purchased_def playFloat_def SDL_max_sint
           split: if_splits)+

lemma acquire_monotone:
  assumes "acquire item st = Inr (out, st')"
  shows "sint (lubeTier (v2 (data_save st))) \<le> sint (lubeTier (v2 (data_save st')))"
    and "sint (gravityTier (v2 (data_save st))) \<le> sint (gravityTier (v2 (data_save st')))"
    and "sint (oxyTier (v2 (data_save st))) \<le> sint (oxyTier (v2 (data_save st')))"
  using assms
  by (cases "kind item";
      auto simp: acquire_def Let_def pay_def purchased_def playFloat_def SDL_max_sint
           split: if_splits)+

lemma acquire_lube_two_again:
  assumes "kind item = Lube" "argument item = 2" "lubeTier (v2 (data_save st)) = 2"
  shows "\<exists>out st'. acquire item st = Inr (out, st') \<and> lubeTier (v2 (data_save st')) = 2"
  using assms
  by (simp add: acquire_def Let_def pay_def purchased_def playFloat_def SDL_max_def)

lemma acquire_lube_two_first:
  assumes "kind item = Lube" "argument item = 2" "sint (lubeTier (v2 (data_save st))) \<le> 2"
    and "acquire item st = Inr (Purchased, st')"
  shows "lubeTier (v2 (data_save st')) = 2"
  using assms
  by (auto simp: acquire_def Let_def pay_def purchased_def playFloat_def SDL_max_def
           split: if_splits)

text \<open>
  What \<open>acquire\<close> would do with an item that asks for more prestige than is held:
  \<open>hasItem\<close> answers "not owned" at the prestige test, before it looks at any tier, so
  a Lube item of tier 2 that asks for prestige 1, bought at prestige 0 with lube tier 3,
  would be charged and leave every tier as it was. \<open>getHoveredItem\<close> skips such an item,
  so \<open>on\<close> never passes it to \<open>acquire\<close>.
\<close>

lemma acquire_unoffered_charges:
  "\<exists>st item st'.
      kind item = Lube
    \<and> sint (argument item) \<le> sint (lubeTier (v2 (data_save st)))
    \<and> 0 < sint (price item)
    \<and> acquire item st = Inr (Purchased, st')
    \<and> score (v2 (data_save st')) = score (v2 (data_save st)) - price item
    \<and> sint (score (v2 (data_save st'))) = sint (score (v2 (data_save st))) - sint (price item)
    \<and> lubeTier (v2 (data_save st')) = lubeTier (v2 (data_save st))
    \<and> gravityTier (v2 (data_save st')) = gravityTier (v2 (data_save st))
    \<and> oxyTier (v2 (data_save st')) = oxyTier (v2 (data_save st))"
proof -
  let ?st = "exStore (exSave 100 0 3)"
  let ?item = "exItem Lube 2 30 1"
  let ?st' = "purchased (?st\<lparr>data_save := (exSave 70 0 3)\<lparr>dirty := True\<rparr>\<rparr>)"
  have "acquire ?item ?st = Inr (Purchased, ?st')"
    by (simp add: acquire_def hasItem_def exItem_def exStore_def exSave_def pay_def SDL_max_def)
  moreover have "kind ?item = Lube" "sint (argument ?item) \<le> sint (lubeTier (v2 (data_save ?st)))"
    "0 < sint (price ?item)"
    "score (v2 (data_save ?st')) = score (v2 (data_save ?st)) - price ?item"
    "sint (score (v2 (data_save ?st'))) = sint (score (v2 (data_save ?st))) - sint (price ?item)"
    "lubeTier (v2 (data_save ?st')) = lubeTier (v2 (data_save ?st))"
    "gravityTier (v2 (data_save ?st')) = gravityTier (v2 (data_save ?st))"
    "oxyTier (v2 (data_save ?st')) = oxyTier (v2 (data_save ?st))"
    by (simp_all add: exItem_def exStore_def exSave_def purchased_def)
  ultimately show ?thesis by blast
qed

text \<open>The item \<open>getHoveredItem\<close> returns is in the store and asks for no more prestige than is held.\<close>

lemma getHoveredItem_loop_offered:
  "getHoveredItem_loop items sv hover displayIdx = Some item \<Longrightarrow>
   item \<in> set items \<and> sint (item_prestige item) \<le> sint (prestige (v2 sv))"
  by (induction items sv hover displayIdx rule: getHoveredItem_loop.induct)
     (auto split: if_splits)

lemma getHoveredItem_offered:
  "getHoveredItem cfg st = Some item \<Longrightarrow>
   item \<in> set (store cfg) \<and> sint (item_prestige item) \<le> sint (prestige (v2 (data_save st)))"
  by (auto simp: getHoveredItem_def dest: getHoveredItem_loop_offered split: if_splits)

lemma acquire_offered:
  assumes "sint (item_prestige item) \<le> sint (prestige (v2 (data_save st)))"
    and "acquire item st = Inr (Purchased, st')"
  shows "score (v2 (data_save st')) = score (v2 (data_save st)) - price item"
    and "dirty (data_save st')"
    and "kind item = Lube \<Longrightarrow>
           sint (lubeTier (v2 (data_save st))) < sint (argument item)
         \<and> lubeTier (v2 (data_save st')) = argument item
         \<and> gravityTier (v2 (data_save st')) = gravityTier (v2 (data_save st))
         \<and> oxyTier (v2 (data_save st')) = oxyTier (v2 (data_save st))"
    and "kind item = Gravity \<Longrightarrow>
           sint (gravityTier (v2 (data_save st))) < sint (argument item)
         \<and> gravityTier (v2 (data_save st')) = argument item
         \<and> lubeTier (v2 (data_save st')) = lubeTier (v2 (data_save st))
         \<and> oxyTier (v2 (data_save st')) = oxyTier (v2 (data_save st))"
    and "kind item = Oxy \<Longrightarrow>
           sint (oxyTier (v2 (data_save st))) < sint (argument item)
         \<and> oxyTier (v2 (data_save st')) = argument item
         \<and> lubeTier (v2 (data_save st')) = lubeTier (v2 (data_save st))
         \<and> gravityTier (v2 (data_save st')) = gravityTier (v2 (data_save st))"
  using assms
  by (cases "kind item";
      auto simp: acquire_def hasItem_def Let_def pay_def purchased_def playFloat_def SDL_max_def
           split: if_splits)+

lemma acquire_owned_rejected:
  assumes "sint (item_prestige item) \<le> sint (prestige (v2 (data_save st)))"
    and "kind item = Lube \<and> sint (argument item) \<le> sint (lubeTier (v2 (data_save st)))
       \<or> kind item = Gravity \<and> sint (argument item) \<le> sint (gravityTier (v2 (data_save st)))
       \<or> kind item = Oxy \<and> sint (argument item) \<le> sint (oxyTier (v2 (data_save st)))"
  shows "acquire item st = Inr (AlreadyOwned, playFloat cAlreadyOwnedFloat st)"
  using assms by (auto simp: acquire_def hasItem_def)

text \<open>
  Every change \<open>on\<close> makes to the save record is a purchase, by \<open>acquire\<close>, of the item
  that \<open>getHoveredItem\<close> returns.
\<close>

lemma updateItemHover_data_save [simp]:
  "data_save (updateItemHover cPad pos st) = data_save st"
  by (simp add: updateItemHover_def)

lemma acquire_changes_only_by_purchase:
  assumes "acquire item st = Inr (out, st')" "data_save st' \<noteq> data_save st"
  shows "out = Purchased"
  using assms
  by (cases "kind item") (auto simp: acquire_def playFloat_def Let_def split: if_splits)

lemma StoreSubState_on_purchase:
  assumes "StoreSubState_on cPad cfg evt st = Inr st'" and "data_save st' \<noteq> data_save st"
  shows "\<exists>pos item. evt = MouseDown pos
           \<and> getHoveredItem cfg (updateItemHover cPad pos st) = Some item
           \<and> acquire item ((updateItemHover cPad pos st)
                 \<lparr>mPurchaseFloatAnchor := pos, mPurchaseFloatTimer := 0\<rparr>) = Inr (Purchased, st')"
proof (cases evt)
  case (MouseDown pos)
  let ?st1 = "updateItemHover cPad pos st"
  let ?st2 = "?st1\<lparr>mPurchaseFloatAnchor := pos, mPurchaseFloatTimer := 0\<rparr>"
  from assms MouseDown obtain item where g: "getHoveredItem cfg ?st1 = Some item"
    and m: "map_sum id snd (acquire item ?st2) = Inr st'"
    by (auto simp: StoreSubState_on_def Let_def split: if_splits option.splits)
  from m obtain out where a: "acquire item ?st2 = Inr (out, st')"
    by (cases "acquire item ?st2") auto
  from assms(2) have "data_save st' \<noteq> data_save ?st2" by simp
  from acquire_changes_only_by_purchase [OF a this] a g MouseDown show ?thesis by simp
next
  case (MouseMotion pos)
  with assms show ?thesis by (auto simp: StoreSubState_on_def)
next
  case (MouseScroll steps)
  with assms show ?thesis by (auto simp: StoreSubState_on_def)
next
  case OtherEvent
  with assms show ?thesis by (auto simp: StoreSubState_on_def)
qed

text \<open>
  C3, as the spec states it, fails for every purchase the store can make. \<open>on\<close> calls
  \<open>acquire\<close> with the item \<open>getHoveredItem\<close> returns, after it has set the float's
  anchor and timer; for no configuration, state, click position and item does that call
  end in a purchase when the item is a Lube, Gravity or Oxy item whose argument is not
  above the tier held: the outcome is \<open>AlreadyOwned\<close> and nothing is charged.
\<close>

theorem C3_offered_purchase_counterexample:
  "\<not> (\<exists>cfg st pos item st'.
        getHoveredItem cfg st = Some item
      \<and> acquire item (st\<lparr>mPurchaseFloatAnchor := pos, mPurchaseFloatTimer := 0\<rparr>)
          = Inr (Purchased, st')
      \<and> (kind item = Lube \<and> sint (argument item) \<le> sint (lubeTier (v2 (data_save st)))
       \<or> kind item = Gravity \<and> sint (argument item) \<le> sint (gravityTier (v2 (data_save st)))
       \<or> kind item = Oxy \<and> sint (argument item) \<le> sint (oxyTier (v2 (data_save st)))))"
proof
  assume "\<exists>cfg st pos item st'.
        getHoveredItem cfg st = Some item
      \<and> acquire item (st\<lparr>mPurchaseFloatAnchor := pos, mPurchaseFloatTimer := 0\<rparr>)
          = Inr (Purchased, st')
      \<and> (kind item = Lube \<and> sint (argument item) \<le> sint (lubeTier (v2 (data_save st)))
       \<or> kind item = Gravity \<and> sint (argument item) \<le> sint (gravityTier (v2 (data_save st)))
       \<or> kind item = Oxy \<and> sint (argument item) \<le> sint (oxyTier (v2 (data_save st))))"
  then obtain cfg st pos item st' where g: "getHoveredItem cfg st = Some item"
    and a: "acquire item (st\<lparr>mPurchaseFloatAnchor := pos, mPurchaseFloatTimer := 0\<rparr>)
          = Inr (Purchased, st')"
    and t: "kind item = Lube \<and> sint (argument item) \<le> sint (lubeTier (v2 (data_save st)))
       \<or> kind item = Gravity \<and> sint (argument item) \<le> sint (gravityTier (v2 (data_save st)))
       \<or> kind item = Oxy \<and> sint (argument item) \<le> sint (oxyTier (v2 (data_save st)))"
    by blast
  let ?st = "st\<lparr>mPurchaseFloatAnchor := pos, mPurchaseFloatTimer := 0\<rparr>"
  from getHoveredItem_offered [OF g]
  have p: "sint (item_prestige item) \<le> sint (prestige (v2 (data_save ?st)))" by simp
  from t
  have t': "kind item = Lube \<and> sint (argument item) \<le> sint (lubeTier (v2 (data_save ?st)))
       \<or> kind item = Gravity \<and> sint (argument item) \<le> sint (gravityTier (v2 (data_save ?st)))
       \<or> kind item = Oxy \<and> sint (argument item) \<le> sint (oxyTier (v2 (data_save ?st)))"
    by simp
  from acquire_owned_rejected [OF p t'] a show False by simp
qed

text \<open>
  C3, amended. For every configuration and state, when the item \<open>getHoveredItem\<close>
  returns is bought (the call \<open>on\<close> makes ends in a purchase), the item is one of the
  store that asks for no more prestige than is held, the price is taken off the score
  and the record is marked dirty; and if the item is a Lube, Gravity or Oxy item, the
  tier held of its kind was strictly below its argument and is now the argument, the
  other two tiers being as they were. So the store never charges for a tiered item
  without raising its tier.
\<close>

theorem C3_offered_purchase_raises_tier:
  assumes "getHoveredItem cfg st = Some item"
    and "acquire item (st\<lparr>mPurchaseFloatAnchor := pos, mPurchaseFloatTimer := 0\<rparr>)
          = Inr (Purchased, st')"
  shows "item \<in> set (store cfg)
       \<and> sint (item_prestige item) \<le> sint (prestige (v2 (data_save st)))
       \<and> score (v2 (data_save st')) = score (v2 (data_save st)) - price item
       \<and> dirty (data_save st')
       \<and> (kind item = Lube \<longrightarrow>
             sint (lubeTier (v2 (data_save st))) < sint (argument item)
           \<and> lubeTier (v2 (data_save st')) = argument item
           \<and> gravityTier (v2 (data_save st')) = gravityTier (v2 (data_save st))
           \<and> oxyTier (v2 (data_save st')) = oxyTier (v2 (data_save st)))
       \<and> (kind item = Gravity \<longrightarrow>
             sint (gravityTier (v2 (data_save st))) < sint (argument item)
           \<and> gravityTier (v2 (data_save st')) = argument item
           \<and> lubeTier (v2 (data_save st')) = lubeTier (v2 (data_save st))
           \<and> oxyTier (v2 (data_save st')) = oxyTier (v2 (data_save st)))
       \<and> (kind item = Oxy \<longrightarrow>
             sint (oxyTier (v2 (data_save st))) < sint (argument item)
           \<and> oxyTier (v2 (data_save st')) = argument item
           \<and> lubeTier (v2 (data_save st')) = lubeTier (v2 (data_save st))
           \<and> gravityTier (v2 (data_save st')) = gravityTier (v2 (data_save st)))"
proof -
  let ?st = "st\<lparr>mPurchaseFloatAnchor := pos, mPurchaseFloatTimer := 0\<rparr>"
  note o = getHoveredItem_offered [OF assms(1)]
  then have p: "sint (item_prestige item) \<le> sint (prestige (v2 (data_save ?st)))" by simp
  note r = acquire_offered [OF p assms(2)]
  from o r(1,2) have "item \<in> set (store cfg)
       \<and> sint (item_prestige item) \<le> sint (prestige (v2 (data_save st)))
       \<and> score (v2 (data_save st')) = score (v2 (data_save st)) - price item
       \<and> dirty (data_save st')" by simp
  moreover from r(3) have "kind item = Lube \<longrightarrow>
             sint (lubeTier (v2 (data_save st))) < sint (argument item)
           \<and> lubeTier (v2 (data_save st')) = argument item
           \<and> gravityTier (v2 (data_save st')) = gravityTier (v2 (data_save st))
           \<and> oxyTier (v2 (data_save st')) = oxyTier (v2 (data_save st))" by simp
  moreover from r(4) have "kind item = Gravity \<longrightarrow>
             sint (gravityTier (v2 (data_save st))) < sint (argument item)
           \<and> gravityTier (v2 (data_save st')) = argument item
           \<and> lubeTier (v2 (data_save st')) = lubeTier (v2 (data_save st))
           \<and> oxyTier (v2 (data_save st')) = oxyTier (v2 (data_save st))" by simp
  moreover from r(5) have "kind item = Oxy \<longrightarrow>
             sint (oxyTier (v2 (data_save st))) < sint (argument item)
           \<and> oxyTier (v2 (data_save st')) = argument item
           \<and> lubeTier (v2 (data_save st')) = lubeTier (v2 (data_save st))
           \<and> gravityTier (v2 (data_save st')) = gravityTier (v2 (data_save st))" by simp
  ultimately show ?thesis by blast
qed

theorem C3_offered_purchase_raises_tier_witness:
  "getHoveredItem exCfg (exStore (exSave 100 0 3)) = Some (exItem Lube 4 30 0)
   \<and> acquire (exItem Lube 4 30 0)
        ((exStore (exSave 100 0 3))
           \<lparr>mPurchaseFloatAnchor := (1 / 2, 1 / 5), mPurchaseFloatTimer := 0\<rparr>)
       = Inr (Purchased, purchased ((exStore (exSave 100 0 3))
            \<lparr>mPurchaseFloatAnchor := (1 / 2, 1 / 5), mPurchaseFloatTimer := 0,
             data_save := (exSave 70 0 4)\<lparr>dirty := True\<rparr>\<rparr>))
   \<and> exItem Lube 4 30 0 \<in> set (store exCfg)
   \<and> sint (lubeTier (v2 (exSave 100 0 3))) < sint (argument (exItem Lube 4 30 0))
   \<and> lubeTier (v2 (data_save (purchased ((exStore (exSave 100 0 3))
            \<lparr>mPurchaseFloatAnchor := (1 / 2, 1 / 5), mPurchaseFloatTimer := 0,
             data_save := (exSave 70 0 4)\<lparr>dirty := True\<rparr>\<rparr>))))
       = argument (exItem Lube 4 30 0)"
proof -
  let ?st = "exStore (exSave 100 0 3)"
  let ?item = "exItem Lube 4 30 0"
  let ?st' = "purchased (?st\<lparr>mPurchaseFloatAnchor := (1 / 2, 1 / 5), mPurchaseFloatTimer := 0,
             data_save := (exSave 70 0 4)\<lparr>dirty := True\<rparr>\<rparr>)"
  have g: "getHoveredItem exCfg ?st = Some ?item"
    by (simp add: getHoveredItem_def exCfg_def exStore_def exSave_def exItem_def cfg0_def)
  have a: "acquire ?item (?st\<lparr>mPurchaseFloatAnchor := (1 / 2, 1 / 5), mPurchaseFloatTimer := 0\<rparr>)
             = Inr (Purchased, ?st')"
    by (simp add: acquire_def hasItem_def exItem_def exStore_def exSave_def pay_def SDL_max_def
        purchased_def)
  have k: "kind ?item = Lube" by (simp add: exItem_def)
  have d: "data_save ?st = exSave 100 0 3" by (simp add: exStore_def)
  from C3_offered_purchase_raises_tier [OF g a] k d g a show ?thesis by simp
qed

text \<open>
  C4. For an item of a valid kind, \<open>acquire\<close> decides in this order: the item is owned
  (the prestige held reaches the item's prestige and the tier held of the item's kind
  reaches its argument), then the score is below the price, then the purchase.
\<close>

theorem C4_acquire_check_order:
  assumes "kind item \<noteq> NoKind"
  shows "map_sum id fst (acquire item st) =
     Inr (if sint (item_prestige item) \<le> sint (prestige (v2 (data_save st)))
             \<and> (kind item = Lube
                   \<and> sint (argument item) \<le> sint (lubeTier (v2 (data_save st)))
              \<or> kind item = Gravity
                   \<and> sint (argument item) \<le> sint (gravityTier (v2 (data_save st)))
              \<or> kind item = Oxy
                   \<and> sint (argument item) \<le> sint (oxyTier (v2 (data_save st))))
          then AlreadyOwned
          else if sint (score (v2 (data_save st))) < sint (price item) then InsufficientFunds
          else Purchased)"
  using assms by (cases "kind item") (simp_all add: acquire_def hasItem_def Let_def)

theorem C4_acquire_check_order_witness:
  "map_sum id fst (acquire (exItem Lube 2 130 0) (exStore (exSave 100 0 3))) = Inr AlreadyOwned
   \<and> map_sum id fst (acquire (exItem Lube 4 130 0) (exStore (exSave 100 0 3)))
       = Inr InsufficientFunds
   \<and> map_sum id fst (acquire (exItem Lube 4 30 0) (exStore (exSave 100 0 3))) = Inr Purchased
   \<and> map_sum id fst (acquire (exItem EndGame 0 30 0) (exStore (exSave 100 0 3))) = Inr Purchased"
  using C4_acquire_check_order [of "exItem Lube 2 130 0" "exStore (exSave 100 0 3)"]
        C4_acquire_check_order [of "exItem Lube 4 130 0" "exStore (exSave 100 0 3)"]
        C4_acquire_check_order [of "exItem Lube 4 30 0" "exStore (exSave 100 0 3)"]
        C4_acquire_check_order [of "exItem EndGame 0 30 0" "exStore (exSave 100 0 3)"]
  by (simp add: exItem_def exStore_def exSave_def)

text \<open>
  C5. When the price is above the score, \<open>acquire\<close> returns without a purchase and the
  save record, flag included, is the record it was given; the same holds after any
  number of such attempts in a row.
\<close>

theorem C5_insufficient_funds_no_mutation:
  assumes "\<forall>item \<in> set (item # items). sint (score (v2 (data_save st))) < sint (price item)"
  shows "(\<exists>out st'. acquire item st = Inr (out, st') \<and> out \<noteq> Purchased
            \<and> data_save st' = data_save st)
       \<and> (\<exists>st'. acquireAll (item # items) st = Inr st' \<and> data_save st' = data_save st)"
proof
  from assms have "sint (score (v2 (data_save st))) < sint (price item)" by simp
  then show "\<exists>out st'. acquire item st = Inr (out, st') \<and> out \<noteq> Purchased
               \<and> data_save st' = data_save st"
    by (rule acquire_rejected)
  from assms show "\<exists>st'. acquireAll (item # items) st = Inr st' \<and> data_save st' = data_save st"
    by (rule acquireAll_rejected)
qed

theorem C5_insufficient_funds_no_mutation_witness:
  "(\<exists>out st'. acquire (exItem Lube 4 30 0) (exStore (exSave 20 0 3)) = Inr (out, st')
       \<and> out \<noteq> Purchased \<and> data_save st' = exSave 20 0 3)
   \<and> (\<exists>st'. acquireAll [exItem Lube 4 30 0, exItem Lube 4 30 0, exItem Gravity 1 21 0]
               (exStore (exSave 20 0 3)) = Inr st'
        \<and> data_save st' = exSave 20 0 3)"
  using C5_insufficient_funds_no_mutation
          [of "exItem Lube 4 30 0" "[exItem Lube 4 30 0, exItem Gravity 1 21 0]"
              "exStore (exSave 20 0 3)"]
  by (simp add: exItem_def exStore_def exSave_def)

text \<open>
  C6. A purchase of a Lube, Gravity or Oxy item leaves the tier of that kind at the
  larger of the tier held and the item's argument and the other tiers as they were; no
  call of \<open>acquire\<close> lowers a tier; and a Lube item of argument 2 bought from a tier of
  at most 2 and then asked for again leaves the lube tier at 2.
\<close>

theorem C6_tier_is_max_and_monotone:
  "(acquire item st = Inr (Purchased, st') \<longrightarrow>
      sint (lubeTier (v2 (data_save st'))) =
        (if kind item = Lube
         then max (sint (lubeTier (v2 (data_save st)))) (sint (argument item))
         else sint (lubeTier (v2 (data_save st))))
    \<and> sint (gravityTier (v2 (data_save st'))) =
        (if kind item = Gravity
         then max (sint (gravityTier (v2 (data_save st)))) (sint (argument item))
         else sint (gravityTier (v2 (data_save st))))
    \<and> sint (oxyTier (v2 (data_save st'))) =
        (if kind item = Oxy
         then max (sint (oxyTier (v2 (data_save st)))) (sint (argument item))
         else sint (oxyTier (v2 (data_save st)))))
   \<and> (acquire item st = Inr (out, st') \<longrightarrow>
        sint (lubeTier (v2 (data_save st))) \<le> sint (lubeTier (v2 (data_save st')))
      \<and> sint (gravityTier (v2 (data_save st))) \<le> sint (gravityTier (v2 (data_save st')))
      \<and> sint (oxyTier (v2 (data_save st))) \<le> sint (oxyTier (v2 (data_save st'))))
   \<and> (kind item = Lube \<and> argument item = 2 \<and> sint (lubeTier (v2 (data_save st))) \<le> 2
        \<and> acquire item st = Inr (Purchased, st') \<longrightarrow>
        lubeTier (v2 (data_save st')) = 2
      \<and> (\<exists>out2 st2. acquire item st' = Inr (out2, st2) \<and> lubeTier (v2 (data_save st2)) = 2))"
proof (intro conjI impI)
  assume "kind item = Lube \<and> argument item = 2 \<and> sint (lubeTier (v2 (data_save st))) \<le> 2
            \<and> acquire item st = Inr (Purchased, st')"
  then have k: "kind item = Lube" and a: "argument item = 2"
    and first: "lubeTier (v2 (data_save st')) = 2"
    using acquire_lube_two_first [of item st st'] by simp_all
  show "lubeTier (v2 (data_save st')) = 2" by (rule first)
  show "\<exists>out2 st2. acquire item st' = Inr (out2, st2) \<and> lubeTier (v2 (data_save st2)) = 2"
    by (rule acquire_lube_two_again [OF k a first])
qed (simp_all add: acquire_tiers acquire_monotone)

theorem C6_tier_is_max_and_monotone_witness:
  "acquire (exItem Lube 2 30 0) (exStore (exSave 100 0 0))
     = Inr (Purchased, purchased (exStore (exSave 100 0 0)
              \<lparr>data_save := (exSave 70 0 2)\<lparr>dirty := True\<rparr>\<rparr>))
   \<and> (\<exists>out2 st2. acquire (exItem Lube 2 30 0)
                    (purchased (exStore (exSave 100 0 0)
                       \<lparr>data_save := (exSave 70 0 2)\<lparr>dirty := True\<rparr>\<rparr>)) = Inr (out2, st2)
         \<and> lubeTier (v2 (data_save st2)) = 2)"
proof -
  let ?item = "exItem Lube 2 30 0"
  let ?st = "exStore (exSave 100 0 0)"
  let ?st' = "purchased (?st\<lparr>data_save := (exSave 70 0 2)\<lparr>dirty := True\<rparr>\<rparr>)"
  have first: "acquire ?item ?st = Inr (Purchased, ?st')"
    by (simp add: acquire_def hasItem_def exItem_def exStore_def exSave_def pay_def SDL_max_def)
  have pre: "kind ?item = Lube \<and> argument ?item = 2
               \<and> sint (lubeTier (v2 (data_save ?st))) \<le> 2"
    by (simp add: exItem_def exStore_def exSave_def)
  from C6_tier_is_max_and_monotone [of ?item ?st ?st'] first pre
  show ?thesis by blast
qed

section \<open>The simulation: what each block of the tick changes\<close>

lemma save_fields [simp]:
  "mEffort (save s) = mEffort s" "mOxy (save s) = mOxy s" "mProgress (save s) = mProgress s"
  "mGravity (save s) = mGravity s" "mCooldown (save s) = mCooldown s"
  "mBrickFall (save s) = mBrickFall s" "mTimer (save s) = mTimer s"
  "mOuttaBreath (save s) = mOuttaBreath s"
  "v2 (mSave (save s)) = v2 (mSave s)" "dirty (mSave (save s)) = False"
  "mStore (save s) = (''progress'', v2 (mSave s)) # mStore s"
  by (simp_all add: save_def Savefile_save_def nqSave_def)

lemma tickStart_fields [simp]:
  "mEffort (tickStart cfg delta s) = mEffort s" "mOxy (tickStart cfg delta s) = mOxy s"
  "mProgress (tickStart cfg delta s) = mProgress s" "mGravity (tickStart cfg delta s) = mGravity s"
  "mCooldown (tickStart cfg delta s) = mCooldown s" "mBrickFall (tickStart cfg delta s) = mBrickFall s"
  "mOuttaBreath (tickStart cfg delta s) = mOuttaBreath s"
  "v2 (mSave (tickStart cfg delta s)) = v2 (mSave s)"
  "dirty (mSave (tickStart cfg delta s)) = False"
  "mTimer (tickStart cfg delta s) = mTimer s + delta"
  "mStore (tickStart cfg delta s) =
     (if dirty (mSave s) then (''progress'', v2 (mSave s)) # mStore s else mStore s)"
  by (simp_all add: tickStart_def Let_def)

lemma tickEffort_fields [simp]:
  "mOxy (tickEffort delta s) = mOxy s" "mProgress (tickEffort delta s) = mProgress s"
  "mGravity (tickEffort delta s) = mGravity s" "mSave (tickEffort delta s) = mSave s"
  "mCooldown (tickEffort delta s) = mCooldown s" "mBrickFall (tickEffort delta s) = mBrickFall s"
  "mStore (tickEffort delta s) = mStore s" "mTimer (tickEffort delta s) = mTimer s"
  by (simp_all add: tickEffort_def Let_def)

lemma tickEffort_bounds:
  assumes "0 \<le> delta" "0 \<le> mEffort s" "mEffort s < b"
  shows "0 \<le> mEffort (tickEffort delta s) \<and> mEffort (tickEffort delta s) < b"
proof -
  have "0 \<le> cEffortDecay * delta" using assms(1) by (simp add: cEffortDecay_def)
  then show ?thesis using assms by (auto simp: tickEffort_def Let_def)
qed

lemma tickEffort_nonneg: "0 \<le> mEffort s \<Longrightarrow> 0 \<le> mEffort (tickEffort delta s)"
  by (simp add: tickEffort_def Let_def)

lemma tickOxy_fields [simp]:
  "mEffort (tickOxy cfg delta s) = mEffort s" "mProgress (tickOxy cfg delta s) = mProgress s"
  "mGravity (tickOxy cfg delta s) = mGravity s" "mSave (tickOxy cfg delta s) = mSave s"
  "mCooldown (tickOxy cfg delta s) = mCooldown s" "mBrickFall (tickOxy cfg delta s) = mBrickFall s"
  "mStore (tickOxy cfg delta s) = mStore s" "mTimer (tickOxy cfg delta s) = mTimer s"
  by (simp_all add: tickOxy_def Let_def)

lemma tickOxy_nonneg: "0 \<le> mOxy (tickOxy cfg delta s)"
  by (simp add: tickOxy_def Let_def)

lemma tickProgress_fields [simp]:
  "mEffort (tickProgress cfg delta s) = mEffort s" "mOxy (tickProgress cfg delta s) = mOxy s"
  "gravityTier (v2 (mSave (tickProgress cfg delta s))) = gravityTier (v2 (mSave s))"
  "mTimer (tickProgress cfg delta s) = mTimer s"
  by (simp_all add: tickProgress_def Let_def recalculateGravity_def recalculateProgressDecay_def)

lemma advanced_nonneg:
  assumes "0 \<le> delta" "0 \<le> mEffort s" "0 \<le> mProgress s" "0 \<le> mGravity s"
  shows "0 \<le> advanced cfg delta s"
proof -
  have "0 \<le> mEffort s * cProgressScalar * delta" using assms by (simp add: cProgressScalar_def)
  moreover have "0 \<le> mGravity s * delta" using assms by simp
  ultimately show ?thesis using assms(3) by (simp add: advanced_def Let_def)
qed

lemma tickProgress_nonneg:
  assumes "0 \<le> delta" "0 \<le> mEffort s" "0 \<le> mProgress s" "gravity_nonneg cfg s"
  shows "0 \<le> mProgress (tickProgress cfg delta s) \<and> gravity_nonneg cfg (tickProgress cfg delta s)"
proof -
  from assms have "0 \<le> advanced cfg delta s" by (simp add: advanced_nonneg gravity_nonneg_def)
  then show ?thesis using assms(4)
    by (simp add: tickProgress_def Let_def gravity_nonneg_def recalculateGravity_def
        recalculateProgressDecay_def)
qed

lemma tickBrickFall_fields [simp]:
  "mEffort (tickBrickFall cfg delta s) = mEffort s" "mOxy (tickBrickFall cfg delta s) = mOxy s"
  "mProgress (tickBrickFall cfg delta s) = mProgress s" "mGravity (tickBrickFall cfg delta s) = mGravity s"
  "mSave (tickBrickFall cfg delta s) = mSave s" "mCooldown (tickBrickFall cfg delta s) = mCooldown s"
  "mStore (tickBrickFall cfg delta s) = mStore s" "mTimer (tickBrickFall cfg delta s) = mTimer s"
  by (simp_all add: tickBrickFall_def Let_def)

lemma tick_effort_oxy_inv:
  assumes "0 \<le> delta" "effort_oxy_inv s"
  shows "effort_oxy_inv (tick cfg delta s)"
proof (cases "mTimer (tickStart cfg delta s) < cFadeInTime")
  case True
  then show ?thesis using assms(2) by (simp add: tick_def Let_def effort_oxy_inv_def)
next
  case False
  have "0 \<le> mEffort (tickEffort delta (tickStart cfg delta s)) \<and>
        mEffort (tickEffort delta (tickStart cfg delta s)) < cMaxEffort + cEffortIncrement"
    using assms by (intro tickEffort_bounds) (simp_all add: effort_oxy_inv_def)
  then show ?thesis using False
    by (simp add: tick_def Let_def effort_oxy_inv_def tickOxy_nonneg del: tickStart_fields(10))
qed

lemma tick_progress_inv:
  assumes "0 \<le> delta" "progress_inv cfg s"
  shows "progress_inv cfg (tick cfg delta s)"
proof (cases "mTimer (tickStart cfg delta s) < cFadeInTime")
  case True
  then show ?thesis using assms(2)
    by (simp add: tick_def Let_def progress_inv_def effort_oxy_inv_def gravity_nonneg_def)
next
  case False
  let ?s3 = "tickOxy cfg delta (tickEffort delta (tickStart cfg delta s))"
  have e: "0 \<le> mEffort ?s3"
    using assms(2) by (simp add: tickEffort_nonneg progress_inv_def effort_oxy_inv_def)
  have p: "0 \<le> mProgress ?s3" using assms(2) by (simp add: progress_inv_def)
  have g: "gravity_nonneg cfg ?s3" using assms(2) by (simp add: progress_inv_def gravity_nonneg_def)
  from tickProgress_nonneg [OF assms(1) e p g]
  have "0 \<le> mProgress (tickProgress cfg delta ?s3)" "gravity_nonneg cfg (tickProgress cfg delta ?s3)"
    by simp_all
  moreover have "gravity_nonneg cfg (tick cfg delta s) = gravity_nonneg cfg (tickProgress cfg delta ?s3)"
    using False by (simp add: tick_def Let_def gravity_nonneg_def del: tickStart_fields(10))
  moreover have "mProgress (tick cfg delta s) = mProgress (tickProgress cfg delta ?s3)"
    using False by (simp add: tick_def Let_def del: tickStart_fields(10))
  ultimately show ?thesis
    using tick_effort_oxy_inv [OF assms(1), of s cfg] assms(2) by (simp add: progress_inv_def)
qed

lemma on_fields [simp]:
  "mOxy (on cfg evt s) = mOxy s" "mProgress (on cfg evt s) = mProgress s"
  "mGravity (on cfg evt s) = mGravity s" "mSave (on cfg evt s) = mSave s"
  "mStore (on cfg evt s) = mStore s" "mTimer (on cfg evt s) = mTimer s"
  by (cases evt; simp add: on_def Let_def updateHoveringStoreIcon_def)+

lemma on_effort:
  "mEffort (on cfg evt s) =
     (case evt of
        MouseDown pos \<Rightarrow>
          if cFadeInTime \<le> mTimer s \<and> \<not> mHoveringStoreIcon (updateHoveringStoreIcon pos s)
             \<and> \<not> mOuttaBreath s \<and> mCooldown s \<le> 0 \<and> mEffort s < cMaxEffort \<and> oxy_min cfg \<le> mOxy s
          then mEffort s + cEffortIncrement else mEffort s
      | _ \<Rightarrow> mEffort s)"
  by (cases evt) (auto simp: on_def Let_def updateHoveringStoreIcon_def)

lemma on_effort_oxy_inv: "effort_oxy_inv s \<Longrightarrow> effort_oxy_inv (on cfg evt s)"
  by (cases evt) (auto simp: on_effort effort_oxy_inv_def cEffortIncrement_def cMaxEffort_def)

lemma on_progress_inv: "progress_inv cfg s \<Longrightarrow> progress_inv cfg (on cfg evt s)"
  by (simp add: progress_inv_def on_effort_oxy_inv gravity_nonneg_def)

lemma run_effort_oxy_inv:
  "list_all is_nonneg_tick inputs \<Longrightarrow> effort_oxy_inv s \<Longrightarrow> effort_oxy_inv (run cfg inputs s)"
  unfolding run_def
proof (induction inputs arbitrary: s)
  case Nil
  then show ?case by simp
next
  case (Cons i inputs)
  then show ?case by (cases i) (simp_all add: tick_effort_oxy_inv on_effort_oxy_inv)
qed

lemma run_progress_inv:
  "list_all is_nonneg_tick inputs \<Longrightarrow> progress_inv cfg s \<Longrightarrow> progress_inv cfg (run cfg inputs s)"
  unfolding run_def
proof (induction inputs arbitrary: s)
  case Nil
  then show ?case by simp
next
  case (Cons i inputs)
  then show ?case by (cases i) (simp_all add: tick_progress_inv on_progress_inv)
qed

lemma tickProgress_completion:
  assumes "mProgress s < 1" "advanced cfg delta s \<ge> 1"
  shows "score (v2 (mSave (tickProgress cfg delta s))) = score (v2 (mSave s)) + 1"
    "mCooldown (tickProgress cfg delta s) = cCooldownValue"
    "mBrickFall (tickProgress cfg delta s) = 0"
  using assms by (simp_all add: tickProgress_def Let_def)

lemma tickBrickFall_brickFall:
  "mBrickFall (tickBrickFall cfg delta s) =
     (if mBrickFall s \<ge> 0 then mBrickFall s + brick_fallSpeed cfg * delta else mBrickFall s)"
  by (simp add: tickBrickFall_def Let_def)

lemma tickProgress_mStore:
  "mStore (tickProgress cfg delta s) =
     (if mProgress s < 1 \<and> advanced cfg delta s \<ge> 1
      then (''progress'', (v2 (mSave s))\<lparr>score := score (v2 (mSave s)) + 1\<rparr>) # mStore s
      else mStore s)"
  by (simp add: tickProgress_def Let_def recalculateGravity_def recalculateProgressDecay_def)

lemma tickProgress_dirty:
  "dirty (mSave (tickProgress cfg delta s)) =
     (if mProgress s < 1 \<and> advanced cfg delta s \<ge> 1 then False else dirty (mSave s))"
  by (simp add: tickProgress_def Let_def recalculateGravity_def recalculateProgressDecay_def)

lemma tick_dirty: "\<not> dirty (mSave (tick cfg delta s))"
  by (simp add: tick_def Let_def tickProgress_dirty del: tickStart_fields(10))

text \<open>The save requests of one tick: one if the record was dirty, one if a fill completes.\<close>

lemma tick_mStore:
  "mStore (tick cfg delta s) =
     (if completes cfg delta s
      then [(''progress'', (v2 (mSave s))\<lparr>score := score (v2 (mSave s)) + 1\<rparr>)] else [])
     @ (if dirty (mSave s) then [(''progress'', v2 (mSave s))] else [])
     @ mStore s"
  by (simp add: tick_def completes_def Let_def tickProgress_mStore del: tickStart_fields(10))

lemma ticks_clean:
  "\<not> dirty (mSave s) \<Longrightarrow> noCompletion cfg deltas s \<Longrightarrow>
   mStore (ticks cfg deltas s) = mStore s"
proof (induction deltas arbitrary: s)
  case Nil
  then show ?case by simp
next
  case (Cons delta deltas)
  from Cons.prems have "mStore (tick cfg delta s) = mStore s"
    by (simp add: tick_mStore)
  moreover from Cons.prems
  have "mStore (ticks cfg deltas (tick cfg delta s)) = mStore (tick cfg delta s)"
    by (intro Cons.IH) (simp_all add: tick_dirty)
  ultimately show ?case by simp
qed

lemma step_mStore:
  "\<exists>new. mStore (step cfg s i) = new @ mStore s \<and> list_all (\<lambda>r. fst r = ''progress'') new"
  by (cases i) (simp_all add: tick_mStore)

lemma run_mStore:
  "\<exists>new. mStore (run cfg inputs s) = new @ mStore s
     \<and> list_all (\<lambda>r. fst r = ''progress'') new"
  unfolding run_def
proof (induction inputs arbitrary: s)
  case Nil
  then show ?case by simp
next
  case (Cons i inputs)
  from step_mStore [of cfg s i] obtain n1
    where 1: "mStore (step cfg s i) = n1 @ mStore s" "list_all (\<lambda>r. fst r = ''progress'') n1"
    by blast
  from Cons.IH [of "step cfg s i"] obtain n2
    where 2: "mStore (foldl (step cfg) (step cfg s i) inputs) = n2 @ mStore (step cfg s i)"
      "list_all (\<lambda>r. fst r = ''progress'') n2"
    by blast
  from 1 2 have "mStore (foldl (step cfg) s (i # inputs)) = (n2 @ n1) @ mStore s
      \<and> list_all (\<lambda>r. fst r = ''progress'') (n2 @ n1)" by simp
  then show ?case by blast
qed

lemma nqLoad_other_key:
  "list_all (\<lambda>r. fst r = k) new \<Longrightarrow> k' \<noteq> k \<Longrightarrow> nqLoad k' (new @ st) d = nqLoad k' st d"
  by (induction new) (auto simp: nqLoad_def)

lemma nqLoad_after_run:
  "nqLoad ''save.json'' (mStore (run cfg inputs s)) d = nqLoad ''save.json'' (mStore s) d"
proof -
  from run_mStore [of cfg inputs s] obtain new
    where "mStore (run cfg inputs s) = new @ mStore s"
      "list_all (\<lambda>r. fst r = ''progress'') new"
    by blast
  then show ?thesis by (simp add: nqLoad_other_key)
qed

text \<open>
  When the decay over the tick is not negative, progress gets from below 1 to 1 or
  beyond only through the advance, that is, in the completion branch.
\<close>

lemma blocks_mProgressDecay [simp]:
  "mProgressDecay (tickStart cfg delta s) = mProgressDecay s"
  "mProgressDecay (tickEffort delta s) = mProgressDecay s"
  "mProgressDecay (tickOxy cfg delta s) = mProgressDecay s"
  by (simp_all add: tickStart_def tickEffort_def tickOxy_def save_def Let_def)

lemma tickProgress_reaches_one:
  assumes "mProgress s < 1" "1 \<le> mProgress (tickProgress cfg delta s)"
    and "0 \<le> mProgressDecay s * delta"
  shows "1 \<le> advanced cfg delta s"
proof (rule ccontr)
  assume n: "\<not> 1 \<le> advanced cfg delta s"
  then have "mProgress (tickProgress cfg delta s) < 1"
    using assms(1,3) by (auto simp: tickProgress_def Let_def)
  with assms(2) show False by simp
qed

lemma tick_reaches_one_completes:
  assumes "mProgress s < 1" "1 \<le> mProgress (tick cfg delta s)"
    and "0 \<le> mProgressDecay s * delta"
  shows "completes cfg delta s"
proof -
  let ?s3 = "tickOxy cfg delta (tickEffort delta (tickStart cfg delta s))"
  have t: "\<not> mTimer (tickStart cfg delta s) < cFadeInTime"
  proof
    assume "mTimer (tickStart cfg delta s) < cFadeInTime"
    then have "mProgress (tick cfg delta s) = mProgress s"
      by (simp add: tick_def Let_def del: tickStart_fields(10))
    with assms(1,2) show False by simp
  qed
  then have e: "mProgress (tick cfg delta s) = mProgress (tickProgress cfg delta ?s3)"
    by (simp add: tick_def Let_def del: tickStart_fields(10))
  have "1 \<le> advanced cfg delta ?s3"
    using assms e by (intro tickProgress_reaches_one) simp_all
  with t assms(1) show ?thesis by (simp add: completes_def Let_def del: tickStart_fields(10))
qed

text \<open>The definitions a closed instance of a session unfolds.\<close>

lemmas session_defs =
  run_def click_def start0_def cfg0_def init_def preload_def ShitState_new_def tick_def
  tickStart_def tickEffort_def tickOxy_def tickProgress_def advanced_def tickBrickFall_def
  on_def updateHoveringStoreIcon_def save_def nqSave_def nqLoad_def Savefile_save_def
  Savefile_default_def SaveV2_default_def recalculateGravity_def recalculateProgressDecay_def
  Let_def cEffortDecay_def cEffortIncrement_def cMaxEffort_def cProgressScalar_def
  cCooldownValue_def cFadeInTime_def cStoreIconW_def cStoreIconH_def cStoreIconX_def
  cStoreIconY_def

lemma exDirty_quiet: "dirty (mSave exDirty) \<and> noCompletion cfg0 [1, 1, 1] exDirty"
  by (simp add: exDirty_def completes_def pay_def exItem_def session_defs)

section \<open>The simulation: bounds, clicks, completion and persistence\<close>

text \<open>
  C1, as the spec states it, fails: no block of \<open>tick\<close> and no branch of \<open>on\<close> cuts a
  value down to its maximum. With the sample configuration, each session below ends
  with a tick of non-negative length and leaves effort above \<open>cMaxEffort\<close>, oxygen above
  1 and progress above 1; with a negative gravity in the configuration, progress ends
  below 0.
\<close>

theorem C1_upper_bounds_counterexample:
  "cMaxEffort < mEffort (run cfg0
       (Tick 1 # replicate 9 click @ [Tick (1 / 30), click, click, Tick (1 / 100)]) start0)
   \<and> 1 < mOxy (run cfg0 [Tick 1, click, Tick (1 / 10), Tick 100] start0)
   \<and> 1 < mProgress (run cfg0
       (Tick 1 # replicate 10 click @ [Tick 1, click, click, click, Tick 1]) start0)
   \<and> mProgress (run (cfg0\<lparr>gravity_base := -1, gravity_threshold := 0\<rparr>) [Tick 1]
          (init (cfg0\<lparr>gravity_base := -1, gravity_threshold := 0\<rparr>)
             (preload (ShitState_new [] True)))) < 0"
  by (simp add: session_defs numeral_eq_Suc)

text \<open>
  C1, amended. In every session of ticks of non-negative length and events, started
  from the state the engine enters (\<open>preload\<close>, then \<open>init\<close>), effort stays in
  \<open>[0, cMaxEffort + cEffortIncrement)\<close> and oxygen stays at or above 0; progress stays
  at or above 0 when the gravity computed from the configuration and the loaded
  gravity tier is not negative. The session is any sequence, so the bounds hold after
  each of its ticks.
\<close>

theorem C1_lower_bounds_and_effort_ceiling:
  assumes "list_all is_nonneg_tick inputs"
  shows "0 \<le> mEffort (run cfg inputs (init cfg (preload (ShitState_new disk splash))))
       \<and> mEffort (run cfg inputs (init cfg (preload (ShitState_new disk splash))))
           < cMaxEffort + cEffortIncrement
       \<and> 0 \<le> mOxy (run cfg inputs (init cfg (preload (ShitState_new disk splash))))
       \<and> (0 \<le> gravity_base cfg
               + real_of_int (sint (gravityTier (nqLoad ''progress'' disk SaveV2_default)))
                 * gravity_upgrade cfg
           \<longrightarrow> 0 \<le> mProgress (run cfg inputs (init cfg (preload (ShitState_new disk splash)))))"
proof -
  let ?s0 = "init cfg (preload (ShitState_new disk splash))"
  have i: "effort_oxy_inv ?s0"
    by (simp add: effort_oxy_inv_def init_def preload_def ShitState_new_def
        recalculateGravity_def recalculateProgressDecay_def cMaxEffort_def cEffortIncrement_def)
  have "effort_oxy_inv (run cfg inputs ?s0)" by (rule run_effort_oxy_inv [OF assms i])
  moreover have "0 \<le> mProgress (run cfg inputs ?s0)"
    if g: "0 \<le> gravity_base cfg
               + real_of_int (sint (gravityTier (nqLoad ''progress'' disk SaveV2_default)))
                 * gravity_upgrade cfg"
  proof -
    have "progress_inv cfg ?s0"
      using i g unfolding progress_inv_def gravity_nonneg_def
      by (simp add: init_def preload_def ShitState_new_def recalculateGravity_def
          recalculateProgressDecay_def Savefile_default_def)
    from run_progress_inv [OF assms this] show ?thesis by (simp add: progress_inv_def)
  qed
  ultimately show ?thesis by (simp add: effort_oxy_inv_def)
qed

theorem C1_lower_bounds_and_effort_ceiling_witness:
  "0 \<le> mEffort (run cfg0 [Tick 1, click, Tick (1 / 10), Tick 100] start0)
   \<and> mEffort (run cfg0 [Tick 1, click, Tick (1 / 10), Tick 100] start0)
       < cMaxEffort + cEffortIncrement
   \<and> 0 \<le> mOxy (run cfg0 [Tick 1, click, Tick (1 / 10), Tick 100] start0)
   \<and> 0 \<le> mProgress (run cfg0 [Tick 1, click, Tick (1 / 10), Tick 100] start0)"
  using C1_lower_bounds_and_effort_ceiling
          [of "[Tick 1, click, Tick (1 / 10), Tick 100]" cfg0 "[]" True]
  by (simp add: start0_def click_def cfg0_def nqLoad_def SaveV2_default_def)

text \<open>
  C9, as the spec states it, fails twice. A click at 0.99 of effort, with the four
  conditions true, leaves effort at 1.09 and not at the maximum: the increment is not
  clamped. And a click during the fade-in, with the four conditions true, leaves effort
  as it was: \<open>on\<close> returns before it looks at the event.
\<close>

theorem C9_click_clamp_counterexample:
  "\<not> mOuttaBreath (run cfg0 (Tick 1 # replicate 9 click @ [Tick (1 / 30), click]) start0)
   \<and> mCooldown (run cfg0 (Tick 1 # replicate 9 click @ [Tick (1 / 30), click]) start0) \<le> 0
   \<and> mEffort (run cfg0 (Tick 1 # replicate 9 click @ [Tick (1 / 30), click]) start0)
       < cMaxEffort
   \<and> oxy_min cfg0
       \<le> mOxy (run cfg0 (Tick 1 # replicate 9 click @ [Tick (1 / 30), click]) start0)
   \<and> mEffort (on cfg0 (MouseDown (0, 0))
         (run cfg0 (Tick 1 # replicate 9 click @ [Tick (1 / 30), click]) start0))
       \<noteq> min cMaxEffort
            (mEffort (run cfg0 (Tick 1 # replicate 9 click @ [Tick (1 / 30), click]) start0)
             + cEffortIncrement)
   \<and> \<not> mOuttaBreath start0 \<and> mCooldown start0 \<le> 0 \<and> mEffort start0 < cMaxEffort
   \<and> oxy_min cfg0 \<le> mOxy start0
   \<and> mEffort (on cfg0 (MouseDown (0, 0)) start0) = mEffort start0"
  by (simp add: session_defs numeral_eq_Suc)

text \<open>
  C9, amended. A mouse-down adds one \<open>cEffortIncrement\<close> to effort, unclamped, exactly
  when the fade-in is over, the position is outside the store icon, and the state is
  not out of breath, has no cooldown left, has effort below \<open>cMaxEffort\<close> and oxygen at
  or above \<open>oxy.min\<close>; any other mouse-down leaves effort as it was. Either way the
  effort after the event is at most the larger of the effort before and
  \<open>cMaxEffort + cEffortIncrement\<close>.
\<close>

theorem C9_click_increment_condition:
  "mEffort (on cfg (MouseDown pos) s) =
     (if cFadeInTime \<le> mTimer s
         \<and> \<not> (cStoreIconX < fst pos \<and> fst pos < cStoreIconX + cStoreIconW
               \<and> cStoreIconY < snd pos \<and> snd pos < cStoreIconY + cStoreIconH)
         \<and> \<not> mOuttaBreath s \<and> mCooldown s \<le> 0 \<and> mEffort s < cMaxEffort
         \<and> oxy_min cfg \<le> mOxy s
      then mEffort s + cEffortIncrement else mEffort s)
   \<and> mEffort (on cfg (MouseDown pos) s) \<le> max (mEffort s) (cMaxEffort + cEffortIncrement)"
  by (auto simp: on_def Let_def updateHoveringStoreIcon_def)

text \<open>
  C7, as the spec states it, fails when the progress decay is negative. With the sample
  configuration and a saved lube tier of 100 the decay is -0.8; after ten clicks one
  tick of length 1 takes progress from 0 to 1.15 in the decay step of line 443, and
  score, cooldown and brick fall stay as they were.
\<close>

theorem C7_decay_fill_counterexample:
  "mProgressDecay (run cfg0 (Tick 1 # replicate 10 click) start100) = - (8 / 10)
   \<and> mProgress (run cfg0 (Tick 1 # replicate 10 click) start100) = 0
   \<and> mProgress (tick cfg0 1 (run cfg0 (Tick 1 # replicate 10 click) start100)) = 115 / 100
   \<and> score (v2 (mSave (tick cfg0 1 (run cfg0 (Tick 1 # replicate 10 click) start100))))
       = score (v2 (mSave (run cfg0 (Tick 1 # replicate 10 click) start100)))
   \<and> mCooldown (tick cfg0 1 (run cfg0 (Tick 1 # replicate 10 click) start100)) = 0
   \<and> mBrickFall (tick cfg0 1 (run cfg0 (Tick 1 # replicate 10 click) start100)) = - 1"
  by (simp add: session_defs start100_def numeral_eq_Suc)

text \<open>
  C7, amended. In a tick that takes the completion branch, whatever the state it starts
  from, the progress block adds 1 to the score (in \<open>s16\<close> arithmetic), sets the cooldown
  to \<open>cCooldownValue\<close> and the brick fall to 0; the tick then ends with the brick-fall
  block, which keeps score and cooldown and moves the brick from 0 by
  \<open>fallSpeed * delta\<close>. And when the decay over the tick is not negative
  (\<open>mProgressDecay * delta \<ge> 0\<close>), every tick that takes progress from below 1 to 1 or
  beyond takes that branch, so it scores once, sets the cooldown and starts the fall.
\<close>

theorem C7_fill_scores_once:
  "(completes cfg delta s \<longrightarrow>
      (let c = tickProgress cfg delta
                 (tickOxy cfg delta (tickEffort delta (tickStart cfg delta s)))
       in tick cfg delta s = tickBrickFall cfg delta c
        \<and> score (v2 (mSave c)) = score (v2 (mSave s)) + 1
        \<and> mCooldown c = cCooldownValue
        \<and> mBrickFall c = 0
        \<and> score (v2 (mSave (tick cfg delta s))) = score (v2 (mSave s)) + 1
        \<and> mCooldown (tick cfg delta s) = cCooldownValue
        \<and> mBrickFall (tick cfg delta s) = 0 + brick_fallSpeed cfg * delta))
   \<and> (mProgress s < 1 \<and> 1 \<le> mProgress (tick cfg delta s) \<and> 0 \<le> mProgressDecay s * delta
        \<longrightarrow>
        completes cfg delta s
      \<and> score (v2 (mSave (tick cfg delta s))) = score (v2 (mSave s)) + 1
      \<and> mCooldown (tick cfg delta s) = cCooldownValue
      \<and> mBrickFall (tick cfg delta s) = 0 + brick_fallSpeed cfg * delta)"
proof -
  have A: "let c = tickProgress cfg delta
                 (tickOxy cfg delta (tickEffort delta (tickStart cfg delta s)))
       in tick cfg delta s = tickBrickFall cfg delta c
        \<and> score (v2 (mSave c)) = score (v2 (mSave s)) + 1
        \<and> mCooldown c = cCooldownValue
        \<and> mBrickFall c = 0
        \<and> score (v2 (mSave (tick cfg delta s))) = score (v2 (mSave s)) + 1
        \<and> mCooldown (tick cfg delta s) = cCooldownValue
        \<and> mBrickFall (tick cfg delta s) = 0 + brick_fallSpeed cfg * delta"
    if c: "completes cfg delta s"
  proof -
    let ?s3 = "tickOxy cfg delta (tickEffort delta (tickStart cfg delta s))"
    from c have t: "\<not> mTimer (tickStart cfg delta s) < cFadeInTime"
      and p: "mProgress ?s3 < 1" and a: "advanced cfg delta ?s3 \<ge> 1"
      by (simp_all add: completes_def Let_def del: tickStart_fields)
    have e: "tick cfg delta s = tickBrickFall cfg delta (tickProgress cfg delta ?s3)"
      using t by (simp add: tick_def Let_def del: tickStart_fields)
    note r = tickProgress_completion [OF p a]
    show ?thesis
      unfolding Let_def e by (simp add: r tickBrickFall_brickFall)
  qed
  have B: "completes cfg delta s"
    if "mProgress s < 1 \<and> 1 \<le> mProgress (tick cfg delta s) \<and> 0 \<le> mProgressDecay s * delta"
    using that tick_reaches_one_completes [of s cfg delta] by simp
  from A B show ?thesis unfolding Let_def by blast
qed

theorem C7_fill_scores_once_witness:
  "mProgress (run cfg0 (Tick 1 # replicate 10 click @ [Tick 1, click, click, click]) start0) < 1
   \<and> 1 \<le> mProgress (tick cfg0 1
        (run cfg0 (Tick 1 # replicate 10 click @ [Tick 1, click, click, click]) start0))
   \<and> 0 \<le> mProgressDecay
        (run cfg0 (Tick 1 # replicate 10 click @ [Tick 1, click, click, click]) start0) * 1
   \<and> completes cfg0 1
        (run cfg0 (Tick 1 # replicate 10 click @ [Tick 1, click, click, click]) start0)
   \<and> score (v2 (mSave
        (run cfg0 (Tick 1 # replicate 10 click @ [Tick 1, click, click, click]) start0))) = 0
   \<and> score (v2 (mSave (tick cfg0 1
        (run cfg0 (Tick 1 # replicate 10 click @ [Tick 1, click, click, click]) start0)))) = 1
   \<and> mCooldown (tick cfg0 1
        (run cfg0 (Tick 1 # replicate 10 click @ [Tick 1, click, click, click]) start0)) = 3
   \<and> mBrickFall (tick cfg0 1
        (run cfg0 (Tick 1 # replicate 10 click @ [Tick 1, click, click, click]) start0)) = 1"
proof -
  let ?s = "run cfg0 (Tick 1 # replicate 10 click @ [Tick 1, click, click, click]) start0"
  have h: "mProgress ?s < 1" "1 \<le> mProgress (tick cfg0 1 ?s)" "0 \<le> mProgressDecay ?s * 1"
    by (simp_all add: session_defs numeral_eq_Suc)
  have z: "score (v2 (mSave ?s)) = 0" by (simp add: session_defs numeral_eq_Suc)
  have f: "brick_fallSpeed cfg0 = 1" by (simp add: cfg0_def)
  from C7_fill_scores_once [of cfg0 1 ?s] h
  have "completes cfg0 1 ?s"
    "score (v2 (mSave (tick cfg0 1 ?s))) = score (v2 (mSave ?s)) + 1"
    "mCooldown (tick cfg0 1 ?s) = cCooldownValue"
    "mBrickFall (tick cfg0 1 ?s) = 0 + brick_fallSpeed cfg0 * 1"
    by blast+
  with h z f show ?thesis by (simp add: cCooldownValue_def)
qed

text \<open>
  C2. A tick that starts with the record dirty queues a save of the record as it stands
  under the key "progress", and every tick ends with the flag cleared. So over ticks in
  a row in which no fill completes, a dirty record costs one request, made by the first
  of them, and a clean record costs none. The clearing is the modelled effect of
  \<open>Savefile_save\<close>.
\<close>

theorem C2_dirty_persisted_once:
  "(dirty (mSave s) \<longrightarrow>
      (\<exists>later. mStore (tick cfg delta s) = later @ (''progress'', v2 (mSave s)) # mStore s))
   \<and> \<not> dirty (mSave (tick cfg delta s))
   \<and> (dirty (mSave s) \<and> noCompletion cfg (delta # deltas) s \<longrightarrow>
        mStore (ticks cfg (delta # deltas) s) = (''progress'', v2 (mSave s)) # mStore s)
   \<and> (\<not> dirty (mSave s) \<and> noCompletion cfg (delta # deltas) s \<longrightarrow>
        mStore (ticks cfg (delta # deltas) s) = mStore s)"
proof (intro conjI impI)
  show "\<not> dirty (mSave (tick cfg delta s))" by (rule tick_dirty)
next
  assume "dirty (mSave s)"
  then show "\<exists>later. mStore (tick cfg delta s) = later @ (''progress'', v2 (mSave s)) # mStore s"
    by (simp add: tick_mStore)
next
  assume a: "dirty (mSave s) \<and> noCompletion cfg (delta # deltas) s"
  then have "mStore (tick cfg delta s) = (''progress'', v2 (mSave s)) # mStore s"
    by (simp add: tick_mStore)
  moreover from a
  have "mStore (ticks cfg deltas (tick cfg delta s)) = mStore (tick cfg delta s)"
    by (intro ticks_clean) (simp_all add: tick_dirty)
  ultimately
  show "mStore (ticks cfg (delta # deltas) s) = (''progress'', v2 (mSave s)) # mStore s"
    by simp
next
  assume "\<not> dirty (mSave s) \<and> noCompletion cfg (delta # deltas) s"
  then show "mStore (ticks cfg (delta # deltas) s) = mStore s"
    using ticks_clean [of s cfg "delta # deltas"] by simp
qed

theorem C2_dirty_persisted_once_witness:
  "dirty (mSave exDirty)
   \<and> mStore exDirty = []
   \<and> mStore (tick cfg0 1 exDirty) = [(''progress'', SaveV2_default)]
   \<and> \<not> dirty (mSave (tick cfg0 1 exDirty))
   \<and> mStore (ticks cfg0 [1, 1, 1] exDirty) = [(''progress'', SaveV2_default)]
   \<and> mStore (ticks cfg0 [1, 1] (tick cfg0 1 exDirty)) = mStore (tick cfg0 1 exDirty)"
proof -
  note q = exDirty_quiet
  have v: "v2 (mSave exDirty) = SaveV2_default" "mStore exDirty = []"
    by (simp_all add: exDirty_def start0_def init_def preload_def ShitState_new_def pay_def
        exItem_def recalculateGravity_def recalculateProgressDecay_def nqLoad_def
        Savefile_default_def SaveV2_default_def)
  from C2_dirty_persisted_once [of exDirty cfg0 1 "[1, 1]"] q v
  have a: "mStore (ticks cfg0 [1, 1, 1] exDirty) = [(''progress'', SaveV2_default)]"
    and d: "\<not> dirty (mSave (tick cfg0 1 exDirty))"
    by simp_all
  from q have q': "noCompletion cfg0 [1, 1] (tick cfg0 1 exDirty)" by simp
  from C2_dirty_persisted_once [of "tick cfg0 1 exDirty" cfg0 1 "[1]"] q' d
  have b: "mStore (ticks cfg0 [1, 1] (tick cfg0 1 exDirty)) = mStore (tick cfg0 1 exDirty)"
    by simp
  from a b have "mStore (tick cfg0 1 exDirty) = [(''progress'', SaveV2_default)]" by simp
  with q v a b d show ?thesis by simp
qed

section \<open>The end of a run and the storage keys\<close>

text \<open>
  C8. Entering the end state leaves a record whose prestige is the prestige loaded
  under "save.json" plus 1 (in \<open>s16\<close> arithmetic, \<open>s16(prestige + 1)\<close>) and whose other
  fields are the defaults, with the flag clear, and queues that record under "save.json"
  at once. Entering it a second time over the resulting storage adds 1 to the prestige
  of the first, 2 in all.
\<close>

theorem C8_terminal_transition_prestige:
  "v2 (end_mSave (enterEndState disk)) =
      SaveV2_default\<lparr>prestige := prestige (nqLoad ''save.json'' disk SaveV2_default) + 1\<rparr>
   \<and> \<not> dirty (end_mSave (enterEndState disk))
   \<and> end_mStore (enterEndState disk)
       = (''save.json'', v2 (end_mSave (enterEndState disk))) # disk
   \<and> v2 (end_mSave (enterEndState (end_mStore (enterEndState disk)))) =
      SaveV2_default\<lparr>prestige := prestige (v2 (end_mSave (enterEndState disk))) + 1\<rparr>
   \<and> prestige (v2 (end_mSave (enterEndState (end_mStore (enterEndState disk))))) =
      prestige (nqLoad ''save.json'' disk SaveV2_default) + 2"
  by (simp add: enterEndState_def EndState_init_def EndState_preload_def EndState_new_def
      Let_def nqSave_def nqLoad_def Savefile_default_def SaveV2_default_def)

text \<open>
  C10. The two keys differ. The gameplay state loads its record from "progress", and
  every request a session of it makes (and \<open>resetSave\<close>) is under "progress"; a purchase
  reaches no storage, it marks the shared record dirty for the next tick. The end state
  loads from "save.json" and queues under "save.json". So the record the end state
  enters with is the same before and after any gameplay session, and the record the
  gameplay state loads is the same before and after the terminal transition.
\<close>

theorem C10_storage_keys_disjoint:
  "''progress'' \<noteq> ''save.json''
   \<and> mSave (preload (ShitState_new disk splash)) =
       Savefile_default\<lparr>v2 := nqLoad ''progress'' disk SaveV2_default\<rparr>
   \<and> (\<exists>new. mStore (run cfg inputs s) = new @ mStore s
          \<and> list_all (\<lambda>r. fst r = ''progress'') new)
   \<and> mStore (resetSave s) = (''progress'', SaveV2_default) # mStore s
   \<and> end_mSave (EndState_preload (EndState_new disk)) =
       Savefile_default\<lparr>v2 := nqLoad ''save.json'' disk SaveV2_default\<rparr>
   \<and> end_mStore (enterEndState disk)
       = (''save.json'', v2 (end_mSave (enterEndState disk))) # disk
   \<and> end_mSave (enterEndState (mStore (run cfg inputs s)))
       = end_mSave (enterEndState (mStore s))
   \<and> mSave (preload (ShitState_new (end_mStore (enterEndState disk)) splash)) =
       mSave (preload (ShitState_new disk splash))"
proof (intro conjI)
  show "\<exists>new. mStore (run cfg inputs s) = new @ mStore s
          \<and> list_all (\<lambda>r. fst r = ''progress'') new"
    by (rule run_mStore)
  show "end_mSave (enterEndState (mStore (run cfg inputs s)))
          = end_mSave (enterEndState (mStore s))"
    by (simp add: enterEndState_def EndState_init_def EndState_preload_def EndState_new_def
        Let_def nqLoad_after_run)
qed (simp_all add: preload_def ShitState_new_def resetSave_def Savefile_default_def
       enterEndState_def EndState_init_def EndState_preload_def EndState_new_def Let_def
       nqSave_def nqLoad_def)

end
